theory Spec2Isabelle
  imports Main "HOL-Library.Word"
begin

section \<open>Outcomes of a call\<close>

text \<open>
  Every C++ function of the interpreter either returns or leaves by an exception. A call
  is modelled by a value of \<open>error + 'a\<close>: \<open>Inr\<close> carries what the function
  returns (together with the objects it mutated), \<open>Inl\<close> says how it left otherwise.

  \<^item> \<open>LexerError\<close> and \<open>RuntimeError\<close> are the classes \<^verbatim>\<open>parse::LexerError\<close> and
    \<^verbatim>\<open>std::runtime_error\<close> thrown by the program itself, with their messages.
  \<^item> \<open>OutOfRange\<close> and \<open>InvalidArgument\<close> are \<^verbatim>\<open>std::out_of_range\<close> and
    \<^verbatim>\<open>std::invalid_argument\<close>, thrown by \<^verbatim>\<open>std::stoi\<close> and by
    \<^verbatim>\<open>unordered_map::at\<close>.
  \<^item> \<open>UndefinedBehaviour\<close> marks the places where the program dereferences a null
    pointer, indexes an empty vector, reads an object that has been deleted or divides
    \<^verbatim>\<open>INT_MIN\<close> by \<open>-1\<close>: no exception is thrown there and the C++ standard
    promises nothing about what happens next.
  \<^item> \<open>NeverReturns\<close> marks a loop of the source that has no exit on the given input.
  \<^item> \<open>OutOfFuel\<close> is the one outcome that belongs to the model only: the evaluator is
    defined with a bound on the nesting depth of method calls, and this is what it
    answers when the bound is reached.
\<close>

datatype error =
    LexerError string
  | RuntimeError string
  | OutOfRange string
  | InvalidArgument string
  | UndefinedBehaviour string
  | NeverReturns string
  | OutOfFuel

fun is_RuntimeError :: "error + 'a \<Rightarrow> bool" where
  "is_RuntimeError (Inl (RuntimeError msg)) = True"
| "is_RuntimeError r = False"

text \<open>The type \<^verbatim>\<open>int\<close> of the source: 32 bits, two's complement.\<close>

type_synonym int32 = "32 word"

section \<open>Lexer (lexer.h, lexer.cpp)\<close>

subsection \<open>Tokens\<close>

text \<open>
  The structs of namespace \<^verbatim>\<open>token_type\<close>, in the order of the variant
  \<^verbatim>\<open>TokenBase\<close>. Each constructor carries the suffix \<open>_tok\<close>, since most of the
  names are taken by HOL or by the syntax tree below. The derived equality of the
  datatype is \<^verbatim>\<open>operator==\<close> on tokens: same alternative and same payload.
\<close>

datatype Token =
    Number_tok int32
  | Id_tok string
  | Char_tok char
  | String_tok string
  | Class_tok
  | Return_tok
  | If_tok
  | Else_tok
  | Def_tok
  | Newline_tok
  | Print_tok
  | Indent_tok
  | Dedent_tok
  | And_tok
  | Or_tok
  | Not_tok
  | Eq_tok
  | NotEq_tok
  | LessOrEq_tok
  | GreaterOrEq_tok
  | None_tok
  | True_tok
  | False_tok
  | Eof_tok

definition keyword_to_token :: "string \<rightharpoonup> Token" where
  "keyword_to_token = map_of
     [(''class'', Class_tok), (''return'', Return_tok), (''if'', If_tok),
      (''else'', Else_tok), (''def'', Def_tok), (''print'', Print_tok),
      (''and'', And_tok), (''or'', Or_tok), (''not'', Not_tok),
      (''None'', None_tok), (''True'', True_tok), (''False'', False_tok)]"

definition comparison_symbols :: "char set" where
  "comparison_symbols = set ''=!<>''"

definition special_symbols :: "char set" where
  "special_symbols = set ''.,:+-*/()=<>''"

subsection \<open>The input stream\<close>

text \<open>
  The lexer reads a \<^verbatim>\<open>std::istream\<close> one character at a time. The model keeps
  the characters that have not been read yet. \<^verbatim>\<open>peek()\<close> and \<^verbatim>\<open>get()\<close>
  answer \<^verbatim>\<open>EOF\<close> on the empty rest, written \<open>None\<close> here. Once \<^verbatim>\<open>get()\<close>
  has answered \<^verbatim>\<open>EOF\<close> the stream is in its failed state, where
  \<^verbatim>\<open>putback\<close> does nothing and every later read answers \<^verbatim>\<open>EOF\<close> again: the
  rest stays empty.
\<close>

definition newline :: char where
  "newline = CHR 0x0A"

definition tab :: char where
  "tab = CHR 0x09"

definition peek :: "string \<Rightarrow> char option" where
  "peek s = (case s of [] \<Rightarrow> None | c # cs \<Rightarrow> Some c)"

definition isdigit :: "char \<Rightarrow> bool" where
  "isdigit c = (48 \<le> (of_char c :: nat) \<and> (of_char c :: nat) \<le> 57)"

definition isalpha :: "char \<Rightarrow> bool" where
  "isalpha c = ((65 \<le> (of_char c :: nat) \<and> (of_char c :: nat) \<le> 90) \<or>
                (97 \<le> (of_char c :: nat) \<and> (of_char c :: nat) \<le> 122))"

text \<open>\<^verbatim>\<open>for (; input_.peek() == ' '; input_.ignore()) {}\<close>\<close>

fun skip_spaces :: "string \<Rightarrow> string" where
  "skip_spaces [] = []"
| "skip_spaces (c # cs) = (if c = CHR '' '' then skip_spaces cs else c # cs)"

text \<open>The same loop with the counter of \<^verbatim>\<open>SkipUselessSymbols\<close>.\<close>

fun count_spaces :: "string \<Rightarrow> int" where
  "count_spaces [] = 0"
| "count_spaces (c # cs) = (if c = CHR '' '' then count_spaces cs + 1 else 0)"

text \<open>\<^verbatim>\<open>input_.ignore(max_size, '\n')\<close>: drops the rest of the line and its newline.\<close>

fun ignore_line :: "string \<Rightarrow> string" where
  "ignore_line [] = []"
| "ignore_line (c # cs) = (if c = newline then cs else ignore_line cs)"

subsection \<open>The lexer's state\<close>

record Lexer =
  indent :: int
  indent_diff :: int
  token :: Token
  input :: string

text \<open>
  \<^verbatim>\<open>std::stoi\<close> on a string of decimal digits. Modelled from the C++ standard
  library: the value of the digits, \<^verbatim>\<open>std::invalid_argument\<close> when there is no
  digit, \<^verbatim>\<open>std::out_of_range\<close> when the value is not an \<^verbatim>\<open>int\<close>.
\<close>

definition digit_value :: "char \<Rightarrow> int" where
  "digit_value c = int (of_char c) - 48"

fun digits_value :: "int \<Rightarrow> string \<Rightarrow> int" where
  "digits_value acc [] = acc"
| "digits_value acc (c # cs) = digits_value (10 * acc + digit_value c) cs"

definition INT_MAX :: int where
  "INT_MAX = 2147483647"

definition stoi :: "string \<Rightarrow> error + int32" where
  "stoi number =
     (if number = [] then Inl (InvalidArgument ''stoi'')
      else if INT_MAX < digits_value 0 number then Inl (OutOfRange ''stoi'')
      else Inr (word_of_int (digits_value 0 number)))"

text \<open>\<^verbatim>\<open>Lexer::GetIndentDedent\<close>\<close>

definition GetIndentDedent :: "Lexer \<Rightarrow> Token \<times> Lexer" where
  "GetIndentDedent lx =
     (if 0 < indent_diff lx
      then (Indent_tok, lx\<lparr>indent_diff := indent_diff lx - 1\<rparr>)
      else (Dedent_tok, lx\<lparr>indent_diff := indent_diff lx + 1\<rparr>))"

text \<open>
  \<^verbatim>\<open>Lexer::GetNumber\<close>. The loop takes the characters read so far and the rest of
  the stream; it stops at the first character that is no digit, which
  \<^verbatim>\<open>putback\<close> returns to the stream, or at the end of the input.
\<close>

fun GetNumber_loop :: "string \<Rightarrow> string \<Rightarrow> string \<times> string" where
  "GetNumber_loop number [] = (number, [])"
| "GetNumber_loop number (ch # rest) =
     (if isdigit ch then GetNumber_loop (number @ [ch]) rest else (number, ch # rest))"

definition GetNumber :: "Lexer \<Rightarrow> error + (Token \<times> Lexer)" where
  "GetNumber lx =
     (case GetNumber_loop [] (input lx) of
        (number, rest) \<Rightarrow>
          (case stoi number of
             Inl e \<Rightarrow> Inl e
           | Inr v \<Rightarrow> Inr (Number_tok v, lx\<lparr>input := rest\<rparr>)))"

text \<open>
  \<^verbatim>\<open>Lexer::GetStrLiteral\<close>. The loop has one exit, the closing quote. At the end
  of the input \<^verbatim>\<open>get()\<close> answers \<^verbatim>\<open>EOF\<close>, which is neither the quote nor a
  backslash, so the loop appends it to the text and goes on for ever.
\<close>

fun GetStrLiteral_loop :: "char \<Rightarrow> string \<Rightarrow> string \<Rightarrow> error + (string \<times> string)" where
  "GetStrLiteral_loop open_ch text [] = Inl (NeverReturns ''GetStrLiteral'')"
| "GetStrLiteral_loop open_ch text [ch] =
     (if ch \<noteq> open_ch \<and> ch \<noteq> CHR 0x5C then GetStrLiteral_loop open_ch (text @ [ch]) []
      else if ch = CHR 0x5C then Inl (NeverReturns ''GetStrLiteral'')
      else Inr (text, []))"
| "GetStrLiteral_loop open_ch text (ch # e # rest) =
     (if ch \<noteq> open_ch \<and> ch \<noteq> CHR 0x5C then GetStrLiteral_loop open_ch (text @ [ch]) (e # rest)
      else if ch = CHR 0x5C then
        (if e = CHR ''n'' then GetStrLiteral_loop open_ch (text @ [newline]) rest
         else if e = CHR ''t'' then GetStrLiteral_loop open_ch (text @ [tab]) rest
         else GetStrLiteral_loop open_ch (text @ [e]) rest)
      else Inr (text, e # rest))"

definition GetStrLiteral :: "Lexer \<Rightarrow> error + (Token \<times> Lexer)" where
  "GetStrLiteral lx =
     (case input lx of
        [] \<Rightarrow> Inl (NeverReturns ''GetStrLiteral'')
      | open_ch # rest \<Rightarrow>
          (case GetStrLiteral_loop open_ch [] rest of
             Inl e \<Rightarrow> Inl e
           | Inr (text, rest') \<Rightarrow> Inr (String_tok text, lx\<lparr>input := rest'\<rparr>)))"

text \<open>\<^verbatim>\<open>Lexer::GetName\<close>\<close>

fun GetName_loop :: "string \<Rightarrow> string \<Rightarrow> string \<times> string" where
  "GetName_loop word [] = (word, [])"
| "GetName_loop word (ch # rest) =
     (if ch = CHR ''_'' \<or> isdigit ch \<or> isalpha ch
      then GetName_loop (word @ [ch]) rest else (word, ch # rest))"

definition GetName :: "Lexer \<Rightarrow> error + (Token \<times> Lexer)" where
  "GetName lx =
     (case GetName_loop [] (input lx) of
        (word, rest) \<Rightarrow>
          (case keyword_to_token word of
             Some t \<Rightarrow> Inr (t, lx\<lparr>input := rest\<rparr>)
           | None \<Rightarrow> Inr (Id_tok word, lx\<lparr>input := rest\<rparr>)))"

text \<open>
  \<^verbatim>\<open>Lexer::GetCompOperator\<close>. \<^verbatim>\<open>input.get(&op[0], 3)\<close> reads at most two
  characters and stops before a newline; \<open>op\<close> is one of the four operators only when
  both were read.
\<close>

definition GetCompOperator :: "Lexer \<Rightarrow> error + (Token \<times> Lexer)" where
  "GetCompOperator lx =
     (case input lx of
        a # b # rest \<Rightarrow>
          (if [a, b] = ''<='' then Inr (LessOrEq_tok, lx\<lparr>input := rest\<rparr>)
           else if [a, b] = ''>='' then Inr (GreaterOrEq_tok, lx\<lparr>input := rest\<rparr>)
           else if [a, b] = ''=='' then Inr (Eq_tok, lx\<lparr>input := rest\<rparr>)
           else if [a, b] = ''!='' then Inr (NotEq_tok, lx\<lparr>input := rest\<rparr>)
           else Inl (LexerError ''Expected two chars long comparison operator''))
      | _ \<Rightarrow> Inl (LexerError ''Expected two chars long comparison operator''))"

text \<open>
  \<^verbatim>\<open>Lexer::SkipUselessSymbols\<close>: counts the leading spaces, drops a comment line or
  an empty line and starts again, and otherwise sets the two indentation counters.
\<close>

function SkipUselessSymbols :: "Lexer \<Rightarrow> Lexer" where
  "SkipUselessSymbols lx =
     (let spaces = count_spaces (input lx); rest = skip_spaces (input lx) in
      if peek rest = Some (CHR ''#'')
        then SkipUselessSymbols (lx\<lparr>input := ignore_line rest\<rparr>)
      else if peek rest = Some newline
        then SkipUselessSymbols (lx\<lparr>input := tl rest\<rparr>)
      else lx\<lparr>indent_diff := spaces div 2 - indent lx, indent := spaces div 2,
              input := rest\<rparr>)"
  by pat_completeness auto

lemma length_skip_spaces: "length (skip_spaces s) \<le> length s"
  by (induction s) auto

lemma length_ignore_line: "length (ignore_line s) \<le> length s"
  by (induction s) auto

lemma length_ignore_line_hash:
  "peek s = Some (CHR ''#'') \<Longrightarrow> length (ignore_line s) < length s"
  using length_ignore_line [of "tl s"]
  by (cases s) (auto simp: peek_def newline_def)

termination SkipUselessSymbols
proof (relation "measure (\<lambda>lx. length (input lx))")
  show "wf (measure (\<lambda>lx. length (input lx)))" by simp
next
  fix lx :: Lexer and spaces rest
  assume "rest = skip_spaces (input lx)" and "peek rest = Some (CHR ''#'')"
  then show "(lx\<lparr>input := ignore_line rest\<rparr>, lx) \<in> measure (\<lambda>lx. length (input lx))"
    using length_ignore_line_hash [of rest] length_skip_spaces [of "input lx"] by simp
next
  fix lx :: Lexer and spaces rest
  assume r: "rest = skip_spaces (input lx)" and p: "peek rest = Some newline"
  from p have "rest \<noteq> []" by (auto simp: peek_def)
  then have "length (tl rest) < length rest" by (cases rest) auto
  with r length_skip_spaces [of "input lx"]
  show "(lx\<lparr>input := tl rest\<rparr>, lx) \<in> measure (\<lambda>lx. length (input lx))"
    by simp
qed

declare SkipUselessSymbols.simps [simp del]

lemma SkipUselessSymbols_no_hash:
  "peek (input (SkipUselessSymbols lx)) \<noteq> Some (CHR ''#'')"
proof (induction lx rule: SkipUselessSymbols.induct)
  case (1 lx)
  show ?case
  proof (cases "peek (skip_spaces (input lx)) = Some (CHR ''#'')")
    case True
    with "1.IH"(1) [OF refl refl] show ?thesis
      by (subst SkipUselessSymbols.simps) (simp add: Let_def)
  next
    case False
    note nohash = this
    show ?thesis
    proof (cases "peek (skip_spaces (input lx)) = Some newline")
      case True
      with nohash "1.IH"(2) [OF refl refl] show ?thesis
        by (subst SkipUselessSymbols.simps) (simp add: Let_def)
    next
      case False
      with nohash show ?thesis
        by (subst SkipUselessSymbols.simps) (simp add: Let_def)
    qed
  qed
qed

text \<open>\<^verbatim>\<open>return token_ = t;\<close>\<close>

definition emit :: "Token \<Rightarrow> Lexer \<Rightarrow> error + (Token \<times> Lexer)" where
  "emit t lx = Inr (t, lx\<lparr>token := t\<rparr>)"

text \<open>\<^verbatim>\<open>return token_ = GetNumber();\<close> and its like: an exception passes through.\<close>

definition emit_from :: "error + (Token \<times> Lexer) \<Rightarrow> error + (Token \<times> Lexer)" where
  "emit_from r = (case r of Inl e \<Rightarrow> Inl e | Inr (t, lx) \<Rightarrow> emit t lx)"

text \<open>
  \<^verbatim>\<open>Lexer::NextToken\<close>. \<open>lx1\<close> is the lexer after the first \<^verbatim>\<open>if\<close>, \<open>lx2\<close>
  after the loop over the spaces, \<open>lx3\<close> after \<^verbatim>\<open>input_.get()\<close>; a branch that
  calls \<^verbatim>\<open>putback(ch)\<close> goes on from \<open>lx2\<close>, where \<open>ch\<close> is still in the stream.
\<close>

function NextToken :: "Lexer \<Rightarrow> error + (Token \<times> Lexer)" where
  "NextToken lx =
     (if token lx = Eof_tok then Inr (Eof_tok, lx)
      else
        let lx1 = (if token lx = Newline_tok then SkipUselessSymbols lx else lx) in
        if indent_diff lx1 \<noteq> 0
          then (case GetIndentDedent lx1 of (t, lx') \<Rightarrow> emit t lx')
        else
          let lx2 = lx1\<lparr>input := skip_spaces (input lx1)\<rparr> in
          (case input lx2 of
             [] \<Rightarrow>
               (if token lx2 = Indent_tok \<or> token lx2 = Dedent_tok \<or> token lx2 = Newline_tok
                then emit Eof_tok lx2
                else emit Newline_tok lx2)
           | ch # rest \<Rightarrow>
               let lx3 = lx2\<lparr>input := rest\<rparr> in
               if ch = newline then emit Newline_tok lx3
               else if isdigit ch then emit_from (GetNumber lx2)
               else if ch = CHR 0x27 \<or> ch = CHR 0x22 then emit_from (GetStrLiteral lx2)
               else if ch = CHR ''#'' then
                 (let lx4 = SkipUselessSymbols (lx3\<lparr>input := ignore_line rest\<rparr>) in
                  case peek (input lx4) of
                    None \<Rightarrow> emit Eof_tok lx4
                  | Some c \<Rightarrow>
                      if c = CHR ''#'' then emit_from (NextToken lx4)
                      else emit Newline_tok lx4)
               else if ch = CHR ''='' \<and> peek rest \<noteq> Some (CHR ''='')
                 then emit (Char_tok (CHR ''='')) lx3
               else if ch \<in> comparison_symbols \<and> peek rest = Some (CHR ''='')
                 then emit_from (GetCompOperator lx2)
               else if isalpha ch \<or> ch = CHR ''_'' then emit_from (GetName lx2)
               else if ch \<in> special_symbols then emit (Char_tok ch) lx3
               else Inl (LexerError ''Error occurred in token generation process'')))"
  by pat_completeness auto

termination NextToken
  by (relation "measure (\<lambda>lx. length (input lx))")
     (auto simp: SkipUselessSymbols_no_hash)

declare NextToken.simps [simp del]

text \<open>
  The constructor \<^verbatim>\<open>Lexer::Lexer\<close>: from the default members it skips the leading
  comments and empty lines, pretends that a \<^verbatim>\<open>Newline\<close> came before and reads the
  first token.
\<close>

definition Lexer_ctor :: "string \<Rightarrow> error + Lexer" where
  "Lexer_ctor s =
     (case NextToken
        ((SkipUselessSymbols \<lparr>indent = 0, indent_diff = 0, token = Number_tok 0, input = s\<rparr>)
           \<lparr>token := Newline_tok\<rparr>) of
        Inl e \<Rightarrow> Inl e
      | Inr (t, lx) \<Rightarrow> Inr lx)"

definition CurrentToken :: "Lexer \<Rightarrow> Token" where
  "CurrentToken lx = token lx"

text \<open>
  The loop of the driver, \<^verbatim>\<open>while ((t = lexer.CurrentToken()) != Eof) { ...;
  lexer.NextToken(); }\<close>, collecting the tokens it sees. The first argument bounds the
  number of rounds; the list ends with \<open>Eof_tok\<close> when the loop came to its end within
  the bound.
\<close>

fun tokens_loop :: "nat \<Rightarrow> Lexer \<Rightarrow> error + Token list" where
  "tokens_loop 0 lx = Inl OutOfFuel"
| "tokens_loop (Suc n) lx =
     (if CurrentToken lx = Eof_tok then Inr [Eof_tok]
      else case NextToken lx of
             Inl e \<Rightarrow> Inl e
           | Inr (t, lx') \<Rightarrow>
               (case tokens_loop n lx' of
                  Inl e \<Rightarrow> Inl e
                | Inr ts \<Rightarrow> Inr (CurrentToken lx # ts)))"

definition tokens_of :: "nat \<Rightarrow> string \<Rightarrow> error + Token list" where
  "tokens_of n s = (case Lexer_ctor s of Inl e \<Rightarrow> Inl e | Inr lx \<Rightarrow> tokens_loop n lx)"

section \<open>Properties of the lexer\<close>

subsection \<open>Integer literals\<close>

lemma GetNumber_loop_run:
  "\<forall>c\<in>set ds. isdigit c \<Longrightarrow> rest = [] \<or> \<not> isdigit (hd rest) \<Longrightarrow>
   GetNumber_loop number (ds @ rest) = (number @ ds, rest)"
proof (induction ds arbitrary: number)
  case Nil
  then show ?case by (cases rest) auto
next
  case (Cons d ds)
  then show ?case by simp
qed

lemma digit_value_nonneg: "isdigit c \<Longrightarrow> 0 \<le> digit_value c"
  by (simp add: isdigit_def digit_value_def)

lemma digits_value_nonneg:
  "\<forall>c\<in>set ds. isdigit c \<Longrightarrow> 0 \<le> acc \<Longrightarrow> 0 \<le> digits_value acc ds"
proof (induction ds arbitrary: acc)
  case Nil
  then show ?case by simp
next
  case (Cons d ds)
  from Cons.prems have "0 \<le> 10 * acc + digit_value d"
    using digit_value_nonneg [of d] by simp
  with Cons show ?case by simp
qed

lemma sint_int32_exact:
  "0 \<le> v \<Longrightarrow> v \<le> INT_MAX \<Longrightarrow> sint (word_of_int v :: int32) = v"
  by (simp add: sint_sbintrunc' signed_take_bit_int_eq_self INT_MAX_def)

lemma isdigit_not_newline: "isdigit d \<Longrightarrow> d \<noteq> newline"
  by (auto simp: isdigit_def newline_def)

text \<open>
  The first step of \<^verbatim>\<open>NextToken\<close>: after a \<^verbatim>\<open>Newline\<close> token the lexer is at the
  start of a line, where \<^verbatim>\<open>SkipUselessSymbols\<close> drops the comment lines and the
  empty lines and measures the indentation of the line that follows.
\<close>

definition line_start :: "Lexer \<Rightarrow> Lexer" where
  "line_start lx = (if token lx = Newline_tok then SkipUselessSymbols lx else lx)"

lemma NextToken_at_digit:
  assumes "token lx \<noteq> Eof_tok" "indent_diff (line_start lx) = 0"
    "skip_spaces (input (line_start lx)) = d # s" "isdigit d"
  shows "NextToken lx = emit_from (GetNumber ((line_start lx)\<lparr>input := d # s\<rparr>))"
  using assms isdigit_not_newline [OF assms(4)]
  by (subst NextToken.simps) (simp add: Let_def line_start_def)

lemma GetNumber_run:
  assumes "ds \<noteq> []" "\<forall>c\<in>set ds. isdigit c" "rest = [] \<or> \<not> isdigit (hd rest)"
    "input lx = ds @ rest"
  shows "GetNumber lx =
      (if digits_value 0 ds \<le> INT_MAX
       then Inr (Number_tok (word_of_int (digits_value 0 ds)), lx\<lparr>input := rest\<rparr>)
       else Inl (OutOfRange ''stoi''))"
proof -
  have "GetNumber_loop [] (input lx) = (ds, rest)"
    using GetNumber_loop_run [OF assms(2,3), of "[]"] assms(4) by simp
  with assms(1) show ?thesis by (simp add: GetNumber_def stoi_def)
qed

text \<open>The states of the lexer at the start of the lines used as examples below.\<close>

lemma line_start_examples:
  "SkipUselessSymbols \<lparr>indent = 1, indent_diff = 0, token = Newline_tok, input = ''  42''\<rparr> =
     \<lparr>indent = 1, indent_diff = 0, token = Newline_tok, input = ''42''\<rparr>"
  "SkipUselessSymbols
     \<lparr>indent = 0, indent_diff = 0, token = Newline_tok, input = [CHR ''#'', CHR ''c'', newline, newline, CHR ''7'']\<rparr> =
     \<lparr>indent = 0, indent_diff = 0, token = Newline_tok, input = ''7''\<rparr>"
  "SkipUselessSymbols \<lparr>indent = 0, indent_diff = 0, token = Newline_tok, input = ''2147483648''\<rparr> =
     \<lparr>indent = 0, indent_diff = 0, token = Newline_tok, input = ''2147483648''\<rparr>"
  by code_simp+

text \<open>
  Claim C7, as the code has it. Whenever \<open>NextToken\<close> comes to a maximal run of
  decimal digits \<open>ds\<close>, it reads the run as one \<open>Number\<close> token, and the rest of the
  stream starts right after the run. It comes to the run when the end of the input has
  not been reported, no \<open>Indent\<close> or \<open>Dedent\<close> token is due, and the run is what
  follows the blanks: inside a line, or at the start of a line or of the whole text,
  behind the comment lines and the empty lines that \<^verbatim>\<open>SkipUselessSymbols\<close> drops.
  The payload is an \<^verbatim>\<open>int\<close> of 32 bits: when the value of the digits is at most
  \<open>INT_MAX = 2^31 - 1\<close> the token carries exactly that value, and a run with a larger
  value makes \<^verbatim>\<open>std::stoi\<close> throw \<^verbatim>\<open>std::out_of_range\<close>.
\<close>

theorem C7_number_token_int32:
  assumes run: "ds \<noteq> []" "\<forall>c\<in>set ds. isdigit c" "rest = [] \<or> \<not> isdigit (hd rest)"
    and tok: "token lx \<noteq> Eof_tok"
    and due: "indent_diff (line_start lx) = 0"
    and at: "skip_spaces (input (line_start lx)) = ds @ rest"
  shows "NextToken lx =
           (if digits_value 0 ds \<le> INT_MAX
            then Inr (Number_tok (word_of_int (digits_value 0 ds)),
                      (line_start lx)\<lparr>input := rest,
                         token := Number_tok (word_of_int (digits_value 0 ds))\<rparr>)
            else Inl (OutOfRange ''stoi''))
         \<and> (digits_value 0 ds \<le> INT_MAX \<longrightarrow>
              sint (word_of_int (digits_value 0 ds) :: int32) = digits_value 0 ds)"
proof -
  from run(1) obtain d ds' where ds: "ds = d # ds'" by (cases ds) auto
  with run(2) have d: "isdigit d" by simp
  from at ds have at': "skip_spaces (input (line_start lx)) = d # (ds' @ rest)" by simp
  let ?lx' = "(line_start lx)\<lparr>input := d # (ds' @ rest)\<rparr>"
  have step: "NextToken lx = emit_from (GetNumber ?lx')"
    by (rule NextToken_at_digit [OF tok due at' d])
  have "input ?lx' = ds @ rest" using ds by simp
  from GetNumber_run [OF run this]
  have num: "GetNumber ?lx' =
      (if digits_value 0 ds \<le> INT_MAX
       then Inr (Number_tok (word_of_int (digits_value 0 ds)), ?lx'\<lparr>input := rest\<rparr>)
       else Inl (OutOfRange ''stoi''))" .
  have first: "NextToken lx =
           (if digits_value 0 ds \<le> INT_MAX
            then Inr (Number_tok (word_of_int (digits_value 0 ds)),
                      (line_start lx)\<lparr>input := rest,
                         token := Number_tok (word_of_int (digits_value 0 ds))\<rparr>)
            else Inl (OutOfRange ''stoi''))"
    by (simp add: step num emit_from_def emit_def)
  have "0 \<le> digits_value 0 ds"
    using digits_value_nonneg [OF run(2)] by simp
  then have second: "digits_value 0 ds \<le> INT_MAX \<longrightarrow>
              sint (word_of_int (digits_value 0 ds) :: int32) = digits_value 0 ds"
    using sint_int32_exact by blast
  from first second show ?thesis by blast
qed

theorem C7_number_token_int32_witness:
  "NextToken \<lparr>indent = 0, indent_diff = 0, token = Char_tok (CHR ''=''), input = '' 2147483647 + 1''\<rparr>
     = Inr (Number_tok 2147483647,
            \<lparr>indent = 0, indent_diff = 0, token = Number_tok 2147483647, input = '' + 1''\<rparr>)
   \<and> sint (2147483647 :: int32) = 2147483647
   \<and> NextToken \<lparr>indent = 1, indent_diff = 0, token = Newline_tok, input = ''  42''\<rparr>
     = Inr (Number_tok 42, \<lparr>indent = 1, indent_diff = 0, token = Number_tok 42, input = []\<rparr>)
   \<and> NextToken
       \<lparr>indent = 0, indent_diff = 0, token = Newline_tok,
        input = [CHR ''#'', CHR ''c'', newline, newline, CHR ''7'']\<rparr>
     = Inr (Number_tok 7, \<lparr>indent = 0, indent_diff = 0, token = Number_tok 7, input = []\<rparr>)
   \<and> NextToken \<lparr>indent = 0, indent_diff = 0, token = Newline_tok, input = ''2147483648''\<rparr>
     = Inl (OutOfRange ''stoi'')"
  using
    C7_number_token_int32 [of "''2147483647''" "'' + 1''"
      "\<lparr>indent = 0, indent_diff = 0, token = Char_tok (CHR ''=''), input = '' 2147483647 + 1''\<rparr>"]
    C7_number_token_int32 [of "''42''" "[]"
      "\<lparr>indent = 1, indent_diff = 0, token = Newline_tok, input = ''  42''\<rparr>"]
    C7_number_token_int32 [of "''7''" "[]"
      "\<lparr>indent = 0, indent_diff = 0, token = Newline_tok,
        input = [CHR ''#'', CHR ''c'', newline, newline, CHR ''7'']\<rparr>"]
    C7_number_token_int32 [of "''2147483648''" "[]"
      "\<lparr>indent = 0, indent_diff = 0, token = Newline_tok, input = ''2147483648''\<rparr>"]
  by (simp add: isdigit_def digit_value_def INT_MAX_def line_start_def line_start_examples)


text \<open>
  Claim C7 as the specification states it (a payload of 64 bits) fails: the digits of
  \<open>2^31\<close> fit in 64 bits, and the lexer built on them ends with
  \<^verbatim>\<open>std::out_of_range\<close> instead of a token.
\<close>

theorem C7_counterexample:
  "Lexer_ctor ''2147483648'' = Inl (OutOfRange ''stoi'')
   \<and> digits_value 0 ''2147483648'' = 2147483648
   \<and> (2147483648 :: int) < 2 ^ 63"
  by code_simp

subsection \<open>The end of the input\<close>





















subsection \<open>Indentation tokens and comments\<close>

text \<open>
  Claim C9 at a well-formed source with a comment at the end of its first line: one
  statement at depth zero and one at depth one, indented by two spaces. The branch of
  \<^verbatim>\<open>NextToken\<close> for \<open>#\<close> calls \<^verbatim>\<open>SkipUselessSymbols\<close>, which reads the
  indentation of the next line, and returns \<open>Newline\<close>; the next call of
  \<^verbatim>\<open>NextToken\<close> sees \<open>Newline\<close> and calls \<^verbatim>\<open>SkipUselessSymbols\<close> once more,
  now behind the spaces. The lexer emits a \<open>Dedent\<close> where an \<open>Indent\<close> is due: the
  prefix of five tokens has more \<open>Dedent\<close> than \<open>Indent\<close> tokens, and the whole
  sequence has one \<open>Dedent\<close> and no \<open>Indent\<close>.
\<close>

theorem C9_comment_breaks_balance:
  "tokens_of 20 ''if x: # c\<newline>  y\<newline>'' =
     Inr [If_tok, Id_tok ''x'', Char_tok (CHR '':''), Newline_tok, Dedent_tok,
          Id_tok ''y'', Newline_tok, Eof_tok]
   \<and> count_list [If_tok, Id_tok ''x'', Char_tok (CHR '':''), Newline_tok, Dedent_tok] Indent_tok
       < count_list [If_tok, Id_tok ''x'', Char_tok (CHR '':''), Newline_tok, Dedent_tok] Dedent_tok"
  by code_simp


text \<open>
  The same defect at the end of the input: the branch for \<open>#\<close> returns \<open>Eof\<close> as soon
  as the stream is exhausted behind the comment, and the \<open>Dedent\<close> that closes the block
  is never emitted. Without the comment the block is closed.
\<close>

lemma comment_at_end_loses_Dedent:
  "tokens_of 20 ''if x:\<newline>  y # c'' =
     Inr [If_tok, Id_tok ''x'', Char_tok (CHR '':''), Newline_tok, Indent_tok,
          Id_tok ''y'', Eof_tok]"
  by code_simp

lemma without_comment_balanced:
  "tokens_of 20 ''if x:\<newline>  y\<newline>'' =
     Inr [If_tok, Id_tok ''x'', Char_tok (CHR '':''), Newline_tok, Indent_tok,
          Id_tok ''y'', Newline_tok, Dedent_tok, Eof_tok]"
  by code_simp

section \<open>Syntax tree and runtime objects (statement.h, runtime.h)\<close>

subsection \<open>Statements, classes and methods\<close>

text \<open>
  The classes derived from \<^verbatim>\<open>ast::Statement\<close>, with their members. A method owns
  its body, a statement; \<^verbatim>\<open>NewInstance\<close> and \<^verbatim>\<open>ClassDefinition\<close> refer to a
  class, and a class to its parent. A \<^verbatim>\<open>Class\<close> is built from a parent that exists
  already, so the chain of parents is finite and the three types form one datatype.
  \<^verbatim>\<open>ast::None\<close> and \<^verbatim>\<open>ast::Not\<close> carry the suffix \<open>_stmt\<close>.

  \<^verbatim>\<open>Comparison\<close> holds a function object; the six functions of runtime.h that it
  is built with are named by a \<open>Comparator\<close>.
\<close>

datatype Comparator =
  Equal_cmp | NotEqual_cmp | Less_cmp | Greater_cmp | LessOrEqual_cmp | GreaterOrEqual_cmp

datatype Statement =
    NumericConst int32
  | StringConst string
  | BoolConst bool
  | None_stmt
  | VariableValue "string list"
  | Assignment string Statement
  | FieldAssignment "string list" string Statement
  | Print "Statement list"
  | MethodCall Statement string "Statement list"
  | NewInstance Class "Statement list"
  | Stringify Statement
  | Add Statement Statement
  | Sub Statement Statement
  | Mult Statement Statement
  | Div Statement Statement
  | Or Statement Statement
  | And Statement Statement
  | Not_stmt Statement
  | Comparison Comparator Statement Statement
  | Compound "Statement list"
  | MethodBody Statement
  | Return Statement
  | ClassDefinition Class
  | IfElse Statement Statement "Statement option"
and Class =
    Class (cls_name: string) (cls_methods: "Method list") (cls_parent: "Class option")
and Method =
    Method (method_name: string) (formal_params: "string list") (body: Statement)

text \<open>
  \<^verbatim>\<open>Class::GetMethod\<close>. The constructor of \<^verbatim>\<open>Class\<close> fills
  \<^verbatim>\<open>name_to_method_\<close> in the order of the methods, so that of two methods with one
  name the later one is found.
\<close>

fun GetMethod :: "Class \<Rightarrow> string \<Rightarrow> Method option" where
  "GetMethod (Class nm ms p) name =
     (case find (\<lambda>m. method_name m = name) (rev ms) of
        Some m \<Rightarrow> Some m
      | None \<Rightarrow> (case p of Some parent \<Rightarrow> GetMethod parent name | None \<Rightarrow> None))"

subsection \<open>Object holders, closures and the heap\<close>

text \<open>
  An \<^verbatim>\<open>ObjectHolder\<close> is a shared pointer to an \<^verbatim>\<open>Object\<close>, or empty. The
  objects of the classes \<^verbatim>\<open>Number\<close>, \<^verbatim>\<open>Bool\<close>, \<^verbatim>\<open>String\<close> and
  \<^verbatim>\<open>Class\<close> are never changed after their construction, so a holder of one of
  them is modelled by the value it points to. A \<^verbatim>\<open>ClassInstance\<close> is changed through
  every holder that points to it, and \<^verbatim>\<open>ClassInstance::Call\<close> compares pointers to
  instances: a holder of an instance is modelled by its address, and the instances live
  in a heap. The model never frees an instance.
\<close>

datatype ObjectHolder =
    None_obj
  | Number_obj int32
  | Bool_obj bool
  | String_obj string
  | Class_obj Class
  | Instance_obj nat

type_synonym Closure = "string \<rightharpoonup> ObjectHolder"

record ClassInstance =
  inst_class :: Class
  inst_fields :: Closure

fun is_Instance :: "ObjectHolder \<Rightarrow> bool" where
  "is_Instance (Instance_obj a) = True"
| "is_Instance object = False"

text \<open>
  An object made by \<^verbatim>\<open>ObjectHolder::Own\<close> is deleted when the last holder that owns
  it is destroyed; a holder made by \<^verbatim>\<open>ObjectHolder::Share\<close> and the empty holder own
  nothing. The value of a holder does not tell who else owns its object, so the state
  records it for the holder that \<^verbatim>\<open>Execute\<close> returned last:

  \<^item> \<open>Sole\<close>: the holder is the only owner of its object, which is deleted as soon
    as the holder is destroyed;
  \<^item> \<open>Local\<close>: the object is owned by the holder and by names of the closure at
    hand, and by nothing else;
  \<^item> \<open>Shared\<close>: the holder owns nothing, or the object has an owner that the model
    does not see destroyed (a field, the argument vector of a call, a closure further up).

  Ownership is followed in one direction only, and for syntax trees in which the body
  of every method is a \<^verbatim>\<open>MethodBody\<close> and no other statement is. Where the model
  says that an object has been deleted, the code has deleted it. An object that the
  model takes to be alive can have been deleted in the code: when the field or the name
  that owned it has been assigned anew in between, when the instance that owned it has
  been destroyed, or when it came into a method as an argument and the call that held
  the argument has returned.
\<close>

datatype Ownership = Shared | Local | Sole

text \<open>
  What a call can change beside the closure it is given: the instances (\<open>heap\<close>, with
  \<open>heap_next\<close> the first address not in use) and the text written to the output
  stream of the \<^verbatim>\<open>Context\<close>. \<open>result_owner\<close> is the ownership of the holder
  returned last, and \<open>local_names\<close> are the names of the closure at hand that own
  their objects together with no one but each other.
\<close>

record State =
  heap :: "nat \<Rightarrow> ClassInstance"
  heap_next :: nat
  out :: string
  result_owner :: Ownership
  local_names :: "string set"

definition State_init :: State where
  "State_init =
     \<lparr>heap = (\<lambda>a. \<lparr>inst_class = Class [] [] None, inst_fields = Map.empty\<rparr>), heap_next = 0, out = [],
      result_owner = Shared, local_names = {}\<rparr>"

text \<open>The holder that is returned has the ownership \<open>w\<close>.\<close>

definition returned :: "Ownership \<Rightarrow> State \<Rightarrow> State" where
  "returned w st = st\<lparr>result_owner := w\<rparr>"

text \<open>
  \<^verbatim>\<open>closure[name] = holder\<close> with the holder returned last: the name owns the object
  from now on, alone or with other names when the holder owned it alone or with such
  names. The holder read back from the closure shares the object with the name.
\<close>

definition stored_in :: "string \<Rightarrow> State \<Rightarrow> State" where
  "stored_in name st =
     (if result_owner st = Shared
      then st\<lparr>local_names := local_names st - {name}\<rparr>
      else st\<lparr>local_names := insert name (local_names st), result_owner := Local\<rparr>)"

text \<open>
  A holder of ownership \<open>w\<close> is copied to a place outside the closure, a field or the
  argument vector of a call. When names of the closure owned the object, the model does
  not know which of them, and takes none of them as an only owner any more.
\<close>

definition given_away :: "Ownership \<Rightarrow> State \<Rightarrow> State" where
  "given_away w st = (if w = Local then st\<lparr>local_names := {}\<rparr> else st)"

text \<open>
  \<^verbatim>\<open>ClassInstance::Call\<close> has returned, and its closure has been destroyed: a holder
  that shared its object with names of that closure only is the only owner now.
\<close>

definition closure_destroyed :: "State \<Rightarrow> State" where
  "closure_destroyed st = (if result_owner st = Local then returned Sole st else st)"

text \<open>
  The end of \<^verbatim>\<open>MethodBody::Execute\<close>, which \<^verbatim>\<open>ClassInstance::Call\<close> runs in a
  closure of its own: \<open>closure\<close> and \<open>st\<close> are the closure and the state at the start
  of the body, \<open>closure1\<close> and \<open>st1\<close> those at its end. The closure at hand is the
  caller's again. The body returns the holder bound to \<^verbatim>\<open>returned_value\<close>;
  \<^verbatim>\<open>Call\<close> returns the holder bound to \<^verbatim>\<open>self\<close> in its place when that name
  has been assigned another object, and the ownership recorded is that of the holder
  that \<^verbatim>\<open>Call\<close> returns.
\<close>

definition body_returned :: "Closure \<Rightarrow> Closure \<Rightarrow> State \<Rightarrow> State \<Rightarrow> State" where
  "body_returned closure closure1 st st1 =
     st1\<lparr>local_names := local_names st,
         result_owner :=
           (if (if closure1 ''self'' = closure ''self'' then ''returned_value'' else ''self'')
                 \<in> local_names st1
            then Local else Shared)\<rparr>"

text \<open>\<^verbatim>\<open>fields_[name] = v\<close> on the instance at address \<open>a\<close>.\<close>

definition set_field :: "nat \<Rightarrow> string \<Rightarrow> ObjectHolder \<Rightarrow> State \<Rightarrow> State" where
  "set_field a name v st =
     st\<lparr>heap := (heap st)(a := (heap st a)\<lparr>inst_fields := (inst_fields (heap st a))(name \<mapsto> v)\<rparr>)\<rparr>"

text \<open>
  \<^verbatim>\<open>ObjectHolder::Own(ClassInstance(c))\<close>: a new instance without fields, owned by
  the holder alone.
\<close>

definition new_instance :: "Class \<Rightarrow> State \<Rightarrow> nat \<times> State" where
  "new_instance c st =
     (heap_next st,
      st\<lparr>heap := (heap st)(heap_next st := \<lparr>inst_class = c, inst_fields = Map.empty\<rparr>),
         heap_next := Suc (heap_next st), result_owner := Sole\<rparr>)"

text \<open>
  The virtual function \<^verbatim>\<open>Executable::Execute(closure, context)\<close>, as runtime.cpp
  sees it: the closure is passed by reference, so it is returned with the result.
\<close>

type_synonym Executable =
  "Statement \<Rightarrow> Closure \<Rightarrow> State \<Rightarrow> error + (ObjectHolder \<times> Closure \<times> State)"

subsection \<open>runtime.cpp\<close>

definition IsTrue :: "ObjectHolder \<Rightarrow> bool" where
  "IsTrue object =
     (case object of
        None_obj \<Rightarrow> False
      | Number_obj n \<Rightarrow> n \<noteq> 0
      | Bool_obj b \<Rightarrow> b
      | String_obj s \<Rightarrow> s \<noteq> []
      | Class_obj c \<Rightarrow> False
      | Instance_obj a \<Rightarrow> False)"

definition HasMethod :: "ClassInstance \<Rightarrow> string \<Rightarrow> nat \<Rightarrow> bool" where
  "HasMethod this method argc =
     (case GetMethod (inst_class this) method of
        Some method_ptr \<Rightarrow> length (formal_params method_ptr) = argc
      | None \<Rightarrow> False)"

text \<open>
  The loop of \<^verbatim>\<open>ClassInstance::Call\<close> that binds the arguments; it runs after
  \<^verbatim>\<open>HasMethod\<close> has found as many parameters as arguments.
\<close>

fun bind_params :: "string list \<Rightarrow> ObjectHolder list \<Rightarrow> Closure \<Rightarrow> Closure" where
  "bind_params (p # ps) (a # as) closure = bind_params ps as (closure(p \<mapsto> a))"
| "bind_params ps as closure = closure"

text \<open>
  \<^verbatim>\<open>ClassInstance::Call\<close> on the instance at address \<open>this\<close>. \<open>exec\<close> is the
  \<^verbatim>\<open>Execute\<close> of the method's body.
\<close>

definition Call ::
  "Executable \<Rightarrow> nat \<Rightarrow> string \<Rightarrow> ObjectHolder list \<Rightarrow> State \<Rightarrow> error + (ObjectHolder \<times> State)" where
  "Call exec this method args st =
     (if \<not> HasMethod (heap st this) method (length args)
      then Inl (RuntimeError ''Method does not exist'')
      else
        case GetMethod (inst_class (heap st this)) method of
          None \<Rightarrow> Inl (UndefinedBehaviour ''method_ptr is null'')
        | Some method_ptr \<Rightarrow>
            (case exec (body method_ptr)
                    (bind_params (formal_params method_ptr) args
                       [''self'' \<mapsto> Instance_obj this]) st of
               Inl e \<Rightarrow> Inl e
             | Inr (res, closure, st') \<Rightarrow>
                 (case closure ''self'' of
                    None \<Rightarrow> Inl (OutOfRange ''at'')
                  | Some self \<Rightarrow>
                      if self \<noteq> Instance_obj this then Inr (self, st')
                      else Inr (res, st'))))"

text \<open>Decimal text of an \<^verbatim>\<open>int\<close>, as \<^verbatim>\<open>operator<<\<close> writes it.\<close>

fun show_nat :: "nat \<Rightarrow> string" where
  "show_nat n =
     (if n < 10 then [char_of (48 + n)]
      else show_nat (n div 10) @ [char_of (48 + n mod 10)])"

definition show_int :: "int \<Rightarrow> string" where
  "show_int i = (if i < 0 then CHR ''-'' # show_nat (nat (- i)) else show_nat (nat i))"

text \<open>
  \<^verbatim>\<open>os << this\<close>: the text of a pointer is chosen by the implementation. The model
  writes the address in decimal behind \<open>0x\<close>.
\<close>

definition pointer_text :: "nat \<Rightarrow> string" where
  "pointer_text a = ''0x'' @ show_nat a"

text \<open>
  The virtual function \<^verbatim>\<open>Object::Print(os, context)\<close>, returning the text written
  to \<open>os\<close>. On an empty holder \<^verbatim>\<open>operator->\<close> finds a null pointer. For an instance
  this is \<^verbatim>\<open>ClassInstance::Print\<close>, which calls \<^verbatim>\<open>__str__\<close> and reads the
  result as a \<^verbatim>\<open>String\<close> without a check.
\<close>

definition Object_Print ::
  "Executable \<Rightarrow> ObjectHolder \<Rightarrow> State \<Rightarrow> error + (string \<times> State)" where
  "Object_Print exec object st =
     (case object of
        None_obj \<Rightarrow> Inl (UndefinedBehaviour ''operator-> on an empty ObjectHolder'')
      | Number_obj n \<Rightarrow> Inr (show_int (sint n), st)
      | Bool_obj b \<Rightarrow> Inr (if b then ''True'' else ''False'', st)
      | String_obj s \<Rightarrow> Inr (s, st)
      | Class_obj c \<Rightarrow> Inr (''Class '' @ cls_name c, st)
      | Instance_obj a \<Rightarrow>
          (case GetMethod (inst_class (heap st a)) ''__str__'' of
             None \<Rightarrow> Inr (pointer_text a, st)
           | Some m \<Rightarrow>
               (case Call exec a ''__str__'' [] st of
                  Inl e \<Rightarrow> Inl e
                | Inr (res, st') \<Rightarrow>
                    (case res of
                       String_obj s \<Rightarrow> Inr (s, st')
                     | _ \<Rightarrow> Inl (UndefinedBehaviour ''TryAs<String>() is null'')))))"

text \<open>\<^verbatim>\<open>operator<\<close> on \<^verbatim>\<open>std::string\<close>: lexicographic on the bytes.\<close>

fun string_less :: "string \<Rightarrow> string \<Rightarrow> bool" where
  "string_less [] [] = False"
| "string_less [] (y # ys) = True"
| "string_less (x # xs) [] = False"
| "string_less (x # xs) (y # ys) =
     (if (of_char x :: nat) < of_char y then True
      else if (of_char y :: nat) < of_char x then False
      else string_less xs ys)"

definition Equal ::
  "Executable \<Rightarrow> ObjectHolder \<Rightarrow> ObjectHolder \<Rightarrow> State \<Rightarrow> error + (bool \<times> State)" where
  "Equal exec lhs rhs st =
     (if lhs = None_obj \<and> rhs = None_obj then Inr (True, st)
      else
        case lhs of
          Bool_obj left \<Rightarrow>
            (case rhs of
               Bool_obj right \<Rightarrow> Inr (left = right, st)
             | _ \<Rightarrow> Inl (RuntimeError ''Equality operator is not applicable''))
        | Number_obj left \<Rightarrow>
            (case rhs of
               Number_obj right \<Rightarrow> Inr (left = right, st)
             | _ \<Rightarrow> Inl (RuntimeError ''Equality operator is not applicable''))
        | String_obj left \<Rightarrow>
            (case rhs of
               String_obj right \<Rightarrow> Inr (left = right, st)
             | _ \<Rightarrow> Inl (RuntimeError ''Equality operator is not applicable''))
        | Instance_obj left \<Rightarrow>
            (if HasMethod (heap st left) ''__eq__'' 1
             then (case Call exec left ''__eq__'' [rhs] st of
                     Inl e \<Rightarrow> Inl e
                   | Inr (res, st') \<Rightarrow> Inr (IsTrue res, st'))
             else Inl (RuntimeError ''Equality operator is not applicable''))
        | _ \<Rightarrow> Inl (RuntimeError ''Equality operator is not applicable''))"

definition Less ::
  "Executable \<Rightarrow> ObjectHolder \<Rightarrow> ObjectHolder \<Rightarrow> State \<Rightarrow> error + (bool \<times> State)" where
  "Less exec lhs rhs st =
     (case lhs of
        Bool_obj left \<Rightarrow>
          (case rhs of
             Bool_obj right \<Rightarrow> Inr (\<not> left \<and> right, st)
           | _ \<Rightarrow> Inl (RuntimeError ''Less operator is not applicable''))
      | Number_obj left \<Rightarrow>
          (case rhs of
             Number_obj right \<Rightarrow> Inr (sint left < sint right, st)
           | _ \<Rightarrow> Inl (RuntimeError ''Less operator is not applicable''))
      | String_obj left \<Rightarrow>
          (case rhs of
             String_obj right \<Rightarrow> Inr (string_less left right, st)
           | _ \<Rightarrow> Inl (RuntimeError ''Less operator is not applicable''))
      | Instance_obj left \<Rightarrow>
          (if HasMethod (heap st left) ''__lt__'' 1
           then (case Call exec left ''__lt__'' [rhs] st of
                   Inl e \<Rightarrow> Inl e
                 | Inr (res, st') \<Rightarrow> Inr (IsTrue res, st'))
           else Inl (RuntimeError ''Less operator is not applicable''))
      | _ \<Rightarrow> Inl (RuntimeError ''Less operator is not applicable''))"

definition NotEqual ::
  "Executable \<Rightarrow> ObjectHolder \<Rightarrow> ObjectHolder \<Rightarrow> State \<Rightarrow> error + (bool \<times> State)" where
  "NotEqual exec lhs rhs st =
     (case Equal exec lhs rhs st of Inl e \<Rightarrow> Inl e | Inr (b, st') \<Rightarrow> Inr (\<not> b, st'))"

text \<open>
  \<^verbatim>\<open>bool eq = !Equal(lhs, rhs, context), ls = !Less(lhs, rhs, context); return eq && ls;\<close>
  The two declarators are evaluated in their order, both before the conjunction.
\<close>

definition Greater ::
  "Executable \<Rightarrow> ObjectHolder \<Rightarrow> ObjectHolder \<Rightarrow> State \<Rightarrow> error + (bool \<times> State)" where
  "Greater exec lhs rhs st =
     (case Equal exec lhs rhs st of
        Inl e \<Rightarrow> Inl e
      | Inr (b, st') \<Rightarrow>
          (case Less exec lhs rhs st' of
             Inl e \<Rightarrow> Inl e
           | Inr (b', st'') \<Rightarrow> Inr (\<not> b \<and> \<not> b', st'')))"

definition LessOrEqual ::
  "Executable \<Rightarrow> ObjectHolder \<Rightarrow> ObjectHolder \<Rightarrow> State \<Rightarrow> error + (bool \<times> State)" where
  "LessOrEqual exec lhs rhs st =
     (case Greater exec lhs rhs st of Inl e \<Rightarrow> Inl e | Inr (b, st') \<Rightarrow> Inr (\<not> b, st'))"

definition GreaterOrEqual ::
  "Executable \<Rightarrow> ObjectHolder \<Rightarrow> ObjectHolder \<Rightarrow> State \<Rightarrow> error + (bool \<times> State)" where
  "GreaterOrEqual exec lhs rhs st =
     (case Less exec lhs rhs st of Inl e \<Rightarrow> Inl e | Inr (b, st') \<Rightarrow> Inr (\<not> b, st'))"

fun compare ::
  "Comparator \<Rightarrow> Executable \<Rightarrow> ObjectHolder \<Rightarrow> ObjectHolder \<Rightarrow> State \<Rightarrow> error + (bool \<times> State)" where
  "compare Equal_cmp = Equal"
| "compare NotEqual_cmp = NotEqual"
| "compare Less_cmp = Less"
| "compare Greater_cmp = Greater"
| "compare LessOrEqual_cmp = LessOrEqual"
| "compare GreaterOrEqual_cmp = GreaterOrEqual"

subsection \<open>statement.cpp\<close>

text \<open>
  The loop of \<^verbatim>\<open>VariableValue::Execute\<close> over the identifiers behind the first.
  \<^verbatim>\<open>Fields()[id]\<close> is \<^verbatim>\<open>unordered_map::operator[]\<close>: a name that is not in
  the map is inserted with an empty holder.
\<close>

fun walk_fields :: "string list \<Rightarrow> ObjectHolder \<Rightarrow> State \<Rightarrow> error + (ObjectHolder \<times> State)" where
  "walk_fields [] obj st = Inr (obj, st)"
| "walk_fields (name # ids) obj st =
     (case obj of
        Instance_obj a \<Rightarrow>
          (case inst_fields (heap st a) name of
             Some v \<Rightarrow> walk_fields ids v st
           | None \<Rightarrow> walk_fields ids None_obj (set_field a name None_obj st))
      | _ \<Rightarrow> Inl (RuntimeError (''Unknown variable - '' @ name)))"

text \<open>
  \<^verbatim>\<open>ObjectHolder obj = closure.at(ids_[0])\<close>: a copy of the holder bound to the name,
  which shares the object with the name. The holder of an instance, and with it what
  the loop reads from the fields of instances, is recorded as \<open>Shared\<close>: the model
  never frees an instance, and a field owns what is read from it.
\<close>

definition read_from :: "string \<Rightarrow> ObjectHolder \<Rightarrow> State \<Rightarrow> State" where
  "read_from name obj st =
     returned (if name \<in> local_names st \<and> \<not> is_Instance obj then Local else Shared) st"

definition VariableValue_Execute ::
  "string list \<Rightarrow> Closure \<Rightarrow> State \<Rightarrow> error + (ObjectHolder \<times> State)" where
  "VariableValue_Execute ids closure st =
     (case ids of
        [] \<Rightarrow> Inl (UndefinedBehaviour ''ids_[0] on an empty vector'')
      | name # rest \<Rightarrow>
          (case closure name of
             None \<Rightarrow> Inl (RuntimeError (''Unknown variable - '' @ name))
           | Some obj \<Rightarrow> walk_fields rest obj (read_from name obj st)))"

text \<open>
  Arithmetic on \<^verbatim>\<open>int\<close>. The language leaves a result that is no
  \<^verbatim>\<open>int\<close> undefined. For a sum, a difference and a product the model takes what
  two's complement arithmetic gives: they wrap around. \<open>trunc_div\<close> is the quotient of
  two integers cut towards zero, which is what \<^verbatim>\<open>/\<close> gives on \<^verbatim>\<open>int\<close>. The
  division has no result when the divisor is zero and for the one quotient that is no
  \<^verbatim>\<open>int\<close>, of \<open>-2^31\<close> by \<open>-1\<close>: the processor traps on both.
\<close>

definition trunc_div :: "int \<Rightarrow> int \<Rightarrow> int" where
  "trunc_div x y = sgn x * sgn y * (\<bar>x\<bar> div \<bar>y\<bar>)"

definition int_div :: "int32 \<Rightarrow> int32 \<Rightarrow> error + int32" where
  "int_div a b =
     (if sint b = 0 then Inl (UndefinedBehaviour ''division by zero'')
      else if sint a = - (2 ^ 31) \<and> sint b = - 1
        then Inl (UndefinedBehaviour ''INT_MIN / -1 is no int'')
      else Inr (word_of_int (trunc_div (sint a) (sint b))))"

text \<open>
  \<^verbatim>\<open>Execute\<close> of every statement. \<open>exec\<close> executes the body of a method that is
  called; the statements inside the statement at hand are executed by \<open>Exec exec\<close>
  itself. \<open>Exec_args\<close> is the loop over \<^verbatim>\<open>args_\<close> of \<^verbatim>\<open>MethodCall\<close> and
  \<^verbatim>\<open>NewInstance\<close>, \<open>Exec_print\<close> the loop of \<^verbatim>\<open>Print\<close>, \<open>Exec_compound\<close>
  the loop of \<^verbatim>\<open>Compound\<close>.

  In an assignment \<^verbatim>\<open>closure[var_] = rv_->Execute(closure, context)\<close> the right side
  is evaluated first (C++17). \<^verbatim>\<open>Comparison::Execute\<close> evaluates its operands as
  arguments of one call, in an order the language leaves open; the model takes the right
  one first, as the compiler of the build does.

  A constant returns \<^verbatim>\<open>ObjectHolder::Share(value_)\<close>, a holder of the object inside
  the syntax tree. \<^verbatim>\<open>Stringify\<close>, the arithmetic and the logical operations and
  \<^verbatim>\<open>Comparison\<close> return \<^verbatim>\<open>ObjectHolder::Own\<close> of a new object.

  \<^verbatim>\<open>Add::Execute\<close> keeps the results of its operands in two variables of type
  \<^verbatim>\<open>ObjectHolder\<close> until it returns. \<^verbatim>\<open>Sub\<close>, \<^verbatim>\<open>Mult\<close> and \<^verbatim>\<open>Div\<close>
  have the declaration \<^verbatim>\<open>auto *left = left_->Execute(closure, context).TryAs<Number>(),
  *right = right_->Execute(closure, context).TryAs<Number>();\<close> instead. Each holder returned is
  a temporary that is destroyed at the end of its declarator, the left one before the
  right operand is evaluated, and only the pointers are kept. When a holder was the only
  owner of its \<^verbatim>\<open>Number\<close>, the pointer kept points to a deleted object, and
  \<^verbatim>\<open>GetValue()\<close> reads it. The test \<^verbatim>\<open>left && right\<close> before only looks at the
  pointers. \<^verbatim>\<open>Div\<close> reads the divisor first and the dividend only when the divisor
  is not zero.
\<close>

fun Exec :: "Executable \<Rightarrow> Statement \<Rightarrow> Closure \<Rightarrow> State \<Rightarrow> error + (ObjectHolder \<times> Closure \<times> State)"
  and Exec_args :: "Executable \<Rightarrow> Statement list \<Rightarrow> Closure \<Rightarrow> State \<Rightarrow> error + (ObjectHolder list \<times> Closure \<times> State)"
  and Exec_print :: "Executable \<Rightarrow> Statement list \<Rightarrow> Closure \<Rightarrow> State \<Rightarrow> error + (Closure \<times> State)"
  and Exec_compound :: "Executable \<Rightarrow> Statement list \<Rightarrow> Closure \<Rightarrow> State \<Rightarrow> error + (Closure \<times> State)"
where
  "Exec exec (NumericConst n) closure st = Inr (Number_obj n, closure, returned Shared st)"
| "Exec exec (StringConst s) closure st = Inr (String_obj s, closure, returned Shared st)"
| "Exec exec (BoolConst b) closure st = Inr (Bool_obj b, closure, returned Shared st)"
| "Exec exec None_stmt closure st = Inr (None_obj, closure, returned Shared st)"
| "Exec exec (VariableValue ids) closure st =
     (case VariableValue_Execute ids closure st of
        Inl e \<Rightarrow> Inl e
      | Inr (obj, st') \<Rightarrow> Inr (obj, closure, st'))"
| "Exec exec (Assignment var rv) closure st =
     (case Exec exec rv closure st of
        Inl e \<Rightarrow> Inl e
      | Inr (v, closure', st') \<Rightarrow> Inr (v, closure'(var \<mapsto> v), stored_in var st'))"
| "Exec exec (FieldAssignment object field_name rv) closure st =
     (case VariableValue_Execute object closure st of
        Inl e \<Rightarrow> Inl e
      | Inr (obj, st1) \<Rightarrow>
          (case obj of
             Instance_obj a \<Rightarrow>
               (case Exec exec rv closure st1 of
                  Inl e \<Rightarrow> Inl e
                | Inr (v, closure', st2) \<Rightarrow>
                    Inr (v, closure',
                         returned Shared
                           (given_away (result_owner st2) (set_field a field_name v st2))))
           | _ \<Rightarrow> Inl (UndefinedBehaviour ''TryAs<ClassInstance>() is null'')))"
| "Exec exec (Print args) closure st =
     (case Exec_print exec args closure st of
        Inl e \<Rightarrow> Inl e
      | Inr (closure', st') \<Rightarrow>
          Inr (None_obj, closure', returned Shared (st'\<lparr>out := out st' @ [newline]\<rparr>)))"
| "Exec exec (MethodCall object method args) closure st =
     (case Exec_args exec args closure st of
        Inl e \<Rightarrow> Inl e
      | Inr (curr_args, closure1, st1) \<Rightarrow>
          (case Exec exec object closure1 st1 of
             Inl e \<Rightarrow> Inl e
           | Inr (obj, closure2, st2) \<Rightarrow>
               (case obj of
                  Instance_obj a \<Rightarrow>
                    (case Call exec a method curr_args st2 of
                       Inl e \<Rightarrow> Inl e
                     | Inr (res, st3) \<Rightarrow> Inr (res, closure2, closure_destroyed st3))
                | _ \<Rightarrow> Inl (UndefinedBehaviour ''TryAs<ClassInstance>() is null''))))"
| "Exec exec (NewInstance c args) closure st =
     (case new_instance c st of
        (a, st0) \<Rightarrow>
          (case GetMethod c ''__init__'' of
             None \<Rightarrow> Inr (Instance_obj a, closure, st0)
           | Some method \<Rightarrow>
               if length (formal_params method) \<noteq> length args
               then Inr (Instance_obj a, closure, st0)
               else
                 (case Exec_args exec args closure st0 of
                    Inl e \<Rightarrow> Inl e
                  | Inr (vals, closure1, st1) \<Rightarrow>
                      (case Call exec a ''__init__'' vals st1 of
                         Inl e \<Rightarrow> Inl e
                       | Inr (post_init_obj, st2) \<Rightarrow>
                           if post_init_obj \<noteq> None_obj
                           then Inr (post_init_obj, closure1, st2)
                           else Inr (Instance_obj a, closure1, st2)))))"
| "Exec exec (Stringify argument) closure st =
     (case Exec exec argument closure st of
        Inl e \<Rightarrow> Inl e
      | Inr (obj, closure1, st1) \<Rightarrow>
          if obj = None_obj then Inr (String_obj ''None'', closure1, returned Sole st1)
          else
            (case (case obj of
                     Instance_obj a \<Rightarrow>
                       if HasMethod (heap st1 a) ''__str__'' 0
                       then (case Call exec a ''__str__'' [] st1 of
                               Inl e \<Rightarrow> Inl e
                             | Inr (res, st2) \<Rightarrow> Object_Print exec res st2)
                       else Object_Print exec obj st1
                   | _ \<Rightarrow> Object_Print exec obj st1) of
               Inl e \<Rightarrow> Inl e
             | Inr (text, st3) \<Rightarrow> Inr (String_obj text, closure1, returned Sole st3)))"
| "Exec exec (Add lhs rhs) closure st =
     (case Exec exec lhs closure st of
        Inl e \<Rightarrow> Inl e
      | Inr (left, closure1, st1) \<Rightarrow>
          (case Exec exec rhs closure1 st1 of
             Inl e \<Rightarrow> Inl e
           | Inr (right, closure2, st2) \<Rightarrow>
               (case left of
                  String_obj lp \<Rightarrow>
                    (case right of
                       String_obj rp \<Rightarrow> Inr (String_obj (lp @ rp), closure2, returned Sole st2)
                     | _ \<Rightarrow> Inl (RuntimeError ''Incorrect addition''))
                | Number_obj lp \<Rightarrow>
                    (case right of
                       Number_obj rp \<Rightarrow> Inr (Number_obj (rp + lp), closure2, returned Sole st2)
                     | _ \<Rightarrow> Inl (RuntimeError ''Incorrect addition''))
                | Instance_obj lp \<Rightarrow>
                    if HasMethod (heap st2 lp) ''__add__'' 1
                    then (case Call exec lp ''__add__'' [right]
                                 (given_away (result_owner st2) st2) of
                            Inl e \<Rightarrow> Inl e
                          | Inr (res, st3) \<Rightarrow> Inr (res, closure2, closure_destroyed st3))
                    else Inl (RuntimeError ''Incorrect addition'')
                | _ \<Rightarrow> Inl (RuntimeError ''Incorrect addition''))))"
| "Exec exec (Sub lhs rhs) closure st =
     (case Exec exec lhs closure st of
        Inl e \<Rightarrow> Inl e
      | Inr (left, closure1, st1) \<Rightarrow>
          (case Exec exec rhs closure1 st1 of
             Inl e \<Rightarrow> Inl e
           | Inr (right, closure2, st2) \<Rightarrow>
               (case (left, right) of
                  (Number_obj l, Number_obj r) \<Rightarrow>
                    if result_owner st1 = Sole \<or> result_owner st2 = Sole
                    then Inl (UndefinedBehaviour ''GetValue() on a deleted Number'')
                    else Inr (Number_obj (l - r), closure2, returned Sole st2)
                | _ \<Rightarrow> Inl (RuntimeError ''Incorrect subtraction''))))"
| "Exec exec (Mult lhs rhs) closure st =
     (case Exec exec lhs closure st of
        Inl e \<Rightarrow> Inl e
      | Inr (left, closure1, st1) \<Rightarrow>
          (case Exec exec rhs closure1 st1 of
             Inl e \<Rightarrow> Inl e
           | Inr (right, closure2, st2) \<Rightarrow>
               (case (left, right) of
                  (Number_obj l, Number_obj r) \<Rightarrow>
                    if result_owner st1 = Sole \<or> result_owner st2 = Sole
                    then Inl (UndefinedBehaviour ''GetValue() on a deleted Number'')
                    else Inr (Number_obj (l * r), closure2, returned Sole st2)
                | _ \<Rightarrow> Inl (RuntimeError ''Incorrect multiplication''))))"
| "Exec exec (Div lhs rhs) closure st =
     (case Exec exec lhs closure st of
        Inl e \<Rightarrow> Inl e
      | Inr (left, closure1, st1) \<Rightarrow>
          (case Exec exec rhs closure1 st1 of
             Inl e \<Rightarrow> Inl e
           | Inr (right, closure2, st2) \<Rightarrow>
               (case (left, right) of
                  (Number_obj l, Number_obj r) \<Rightarrow>
                    if result_owner st2 = Sole
                    then Inl (UndefinedBehaviour ''GetValue() on a deleted Number'')
                    else if r = 0 then Inl (RuntimeError ''Incorrect division'')
                    else if result_owner st1 = Sole
                    then Inl (UndefinedBehaviour ''GetValue() on a deleted Number'')
                    else (case int_div l r of
                            Inl e \<Rightarrow> Inl e
                          | Inr q \<Rightarrow> Inr (Number_obj q, closure2, returned Sole st2))
                | _ \<Rightarrow> Inl (RuntimeError ''Incorrect division''))))"
| "Exec exec (Or lhs rhs) closure st =
     (case Exec exec lhs closure st of
        Inl e \<Rightarrow> Inl e
      | Inr (left, closure1, st1) \<Rightarrow>
          if \<not> IsTrue left
          then (case Exec exec rhs closure1 st1 of
                  Inl e \<Rightarrow> Inl e
                | Inr (right, closure2, st2) \<Rightarrow>
                    Inr (Bool_obj (IsTrue right), closure2, returned Sole st2))
          else Inr (Bool_obj True, closure1, returned Sole st1))"
| "Exec exec (And lhs rhs) closure st =
     (case Exec exec lhs closure st of
        Inl e \<Rightarrow> Inl e
      | Inr (left, closure1, st1) \<Rightarrow>
          if IsTrue left
          then (case Exec exec rhs closure1 st1 of
                  Inl e \<Rightarrow> Inl e
                | Inr (right, closure2, st2) \<Rightarrow>
                    Inr (Bool_obj (IsTrue right), closure2, returned Sole st2))
          else Inr (Bool_obj False, closure1, returned Sole st1))"
| "Exec exec (Not_stmt argument) closure st =
     (case Exec exec argument closure st of
        Inl e \<Rightarrow> Inl e
      | Inr (v, closure1, st1) \<Rightarrow> Inr (Bool_obj (\<not> IsTrue v), closure1, returned Sole st1))"
| "Exec exec (Comparison cmp lhs rhs) closure st =
     (case Exec exec rhs closure st of
        Inl e \<Rightarrow> Inl e
      | Inr (right, closure1, st1) \<Rightarrow>
          (case Exec exec lhs closure1 st1 of
             Inl e \<Rightarrow> Inl e
           | Inr (left, closure2, st2) \<Rightarrow>
               (case compare cmp exec left right
                       (if is_Instance left then given_away (result_owner st1) st2 else st2) of
                  Inl e \<Rightarrow> Inl e
                | Inr (b, st3) \<Rightarrow> Inr (Bool_obj b, closure2, returned Sole st3))))"
| "Exec exec (Compound statements) closure st =
     (case Exec_compound exec statements closure st of
        Inl e \<Rightarrow> Inl e
      | Inr (closure', st') \<Rightarrow> Inr (None_obj, closure', returned Shared st'))"
| "Exec exec (MethodBody b) closure st =
     (case Exec exec b closure (st\<lparr>local_names := {}\<rparr>) of
        Inl e \<Rightarrow> Inl e
      | Inr (v, closure1, st1) \<Rightarrow>
          (case closure1 ''returned_value'' of
             Some res \<Rightarrow> Inr (res, closure1, body_returned closure closure1 st st1)
           | None \<Rightarrow> Inr (None_obj, closure1, body_returned closure closure1 st st1)))"
| "Exec exec (Return statement) closure st =
     (case Exec exec statement closure st of
        Inl e \<Rightarrow> Inl e
      | Inr (v, closure1, st1) \<Rightarrow>
          Inr (None_obj, closure1(''returned_value'' \<mapsto> v),
               returned Shared (stored_in ''returned_value'' st1)))"
| "Exec exec (ClassDefinition c) closure st =
     Inr (None_obj, closure(cls_name c \<mapsto> Class_obj c), stored_in (cls_name c) (returned Shared st))"
| "Exec exec (IfElse condition if_body else_body) closure st =
     (case Exec exec condition closure st of
        Inl e \<Rightarrow> Inl e
      | Inr (v, closure1, st1) \<Rightarrow>
          if IsTrue v
          then (case Exec exec if_body closure1 st1 of
                  Inl e \<Rightarrow> Inl e
                | Inr (w, closure2, st2) \<Rightarrow> Inr (None_obj, closure2, returned Shared st2))
          else
            (case else_body of
               Some eb \<Rightarrow>
                 (case Exec exec eb closure1 st1 of
                    Inl e \<Rightarrow> Inl e
                  | Inr (w, closure2, st2) \<Rightarrow> Inr (None_obj, closure2, returned Shared st2))
             | None \<Rightarrow> Inr (None_obj, closure1, returned Shared st1)))"
| "Exec_args exec [] closure st = Inr ([], closure, st)"
| "Exec_args exec (arg # args) closure st =
     (case Exec exec arg closure st of
        Inl e \<Rightarrow> Inl e
      | Inr (v, closure1, st1) \<Rightarrow>
          (case Exec_args exec args closure1 (given_away (result_owner st1) st1) of
             Inl e \<Rightarrow> Inl e
           | Inr (vs, closure2, st2) \<Rightarrow> Inr (v # vs, closure2, st2)))"
| "Exec_print exec [] closure st = Inr (closure, st)"
| "Exec_print exec (arg # args) closure st =
     (case Exec exec arg closure st of
        Inl e \<Rightarrow> Inl e
      | Inr (tmp_obj, closure1, st1) \<Rightarrow>
          (case (if tmp_obj \<noteq> None_obj then Object_Print exec tmp_obj st1
                 else Inr (''None'', st1)) of
             Inl e \<Rightarrow> Inl e
           | Inr (text, st2) \<Rightarrow>
               Exec_print exec args closure1
                 (st2\<lparr>out := out st2 @ text @ (if args \<noteq> [] then '' '' else [])\<rparr>)))"
| "Exec_compound exec [] closure st = Inr (closure, st)"
| "Exec_compound exec (s # statements) closure st =
     (case Exec exec s closure st of
        Inl e \<Rightarrow> Inl e
      | Inr (v, closure1, st1) \<Rightarrow>
          if closure1 ''returned_value'' \<noteq> None then Inr (closure1, st1)
          else Exec_compound exec statements closure1 st1)"

text \<open>
  \<^verbatim>\<open>Statement::Execute\<close> with a bound on the depth of method calls: with bound 0
  no method body is entered, with bound \<open>n + 1\<close> a method body is executed with bound
  \<open>n\<close>.
\<close>

fun Execute :: "nat \<Rightarrow> Executable" where
  "Execute 0 = Exec (\<lambda>s closure st. Inl OutOfFuel)"
| "Execute (Suc n) = Exec (Execute n)"

section \<open>Properties of the runtime\<close>

subsection \<open>Programs used as examples\<close>

text \<open>
  \<^verbatim>\<open>class Box\<close> of the specification's sixth scenario, with \<^verbatim>\<open>__init__(v)\<close>
  storing its argument and \<^verbatim>\<open>__eq__(o)\<close> comparing the stored values; \<open>Plain\<close> is
  a class without methods.
\<close>

definition Box :: Class where
  "Box = Class ''Box''
     [Method ''__init__'' [''v'']
        (MethodBody (Compound [FieldAssignment [''self''] ''v'' (VariableValue [''v''])])),
      Method ''__eq__'' [''o'']
        (MethodBody (Compound
           [Return (Comparison Equal_cmp (VariableValue [''self'', ''v''])
                      (VariableValue [''o'', ''v'']))]))]
     None"

definition Plain :: Class where
  "Plain = Class ''Plain'' [] None"

text \<open>A state with one \<open>Box\<close> holding 1 at address 0 and one \<open>Plain\<close> at address 1.\<close>

definition State_example :: State where
  "State_example =
     \<lparr>heap = (\<lambda>a. if a = 0 then \<lparr>inst_class = Box, inst_fields = [''v'' \<mapsto> Number_obj 1]\<rparr>
                     else \<lparr>inst_class = Plain, inst_fields = Map.empty\<rparr>),
      heap_next = 2, out = [], result_owner = Shared, local_names = {}\<rparr>"

subsection \<open>Equality\<close>

text \<open>The cases in which claim C2 gives \<^verbatim>\<open>Equal\<close> a result.\<close>

fun same_primitive_kind :: "ObjectHolder \<Rightarrow> ObjectHolder \<Rightarrow> bool" where
  "same_primitive_kind (Bool_obj a) (Bool_obj b) = True"
| "same_primitive_kind (Number_obj a) (Number_obj b) = True"
| "same_primitive_kind (String_obj a) (String_obj b) = True"
| "same_primitive_kind lhs rhs = False"

definition has_overload :: "State \<Rightarrow> ObjectHolder \<Rightarrow> string \<Rightarrow> bool" where
  "has_overload st lhs method =
     (case lhs of Instance_obj a \<Rightarrow> HasMethod (heap st a) method 1 | _ \<Rightarrow> False)"

lemma Equal_other_case:
  assumes "\<not> (lhs = None_obj \<and> rhs = None_obj)" "\<not> same_primitive_kind lhs rhs"
    "\<not> has_overload st lhs ''__eq__''"
  shows "Equal exec lhs rhs st = Inl (RuntimeError ''Equality operator is not applicable'')"
proof (cases lhs)
  case None_obj
  with assms show ?thesis by (simp add: Equal_def)
next
  case (Number_obj n)
  with assms show ?thesis by (cases rhs) (simp_all add: Equal_def)
next
  case (Bool_obj b)
  with assms show ?thesis by (cases rhs) (simp_all add: Equal_def)
next
  case (String_obj s)
  with assms show ?thesis by (cases rhs) (simp_all add: Equal_def)
next
  case (Class_obj c)
  with assms show ?thesis by (simp add: Equal_def)
next
  case (Instance_obj a)
  with assms show ?thesis by (simp add: Equal_def has_overload_def)
qed

text \<open>
  Claim C2. \<^verbatim>\<open>Equal\<close> is true on two empty holders; on two \<^verbatim>\<open>Bool\<close>, two
  \<^verbatim>\<open>Number\<close> or two \<^verbatim>\<open>String\<close> objects it compares the values; when the left
  operand is an instance whose class has \<^verbatim>\<open>__eq__\<close> with one parameter, it calls
  \<^verbatim>\<open>__eq__\<close> on it with the right operand and returns the truth value of the result
  (an exception of the call passes through); in every other case it throws
  \<^verbatim>\<open>runtime_error\<close>. On two empty holders the comparisons other than \<open>==\<close> and
  \<open>!=\<close> throw \<^verbatim>\<open>runtime_error\<close>.
\<close>

theorem C2_Equal:
  "Equal exec None_obj None_obj st = Inr (True, st)
   \<and> Equal exec (Bool_obj b1) (Bool_obj b2) st = Inr (b1 = b2, st)
   \<and> Equal exec (Number_obj n1) (Number_obj n2) st = Inr (n1 = n2, st)
   \<and> Equal exec (String_obj s1) (String_obj s2) st = Inr (s1 = s2, st)
   \<and> (HasMethod (heap st a) ''__eq__'' 1 \<longrightarrow>
        Equal exec (Instance_obj a) rhs st =
          (case Call exec a ''__eq__'' [rhs] st of
             Inl e \<Rightarrow> Inl e
           | Inr (res, st') \<Rightarrow> Inr (IsTrue res, st')))
   \<and> (\<not> (lhs = None_obj \<and> rhs = None_obj) \<and> \<not> same_primitive_kind lhs rhs \<and>
        \<not> has_overload st lhs ''__eq__'' \<longrightarrow>
        Equal exec lhs rhs st = Inl (RuntimeError ''Equality operator is not applicable''))
   \<and> NotEqual exec None_obj None_obj st = Inr (False, st)
   \<and> is_RuntimeError (Less exec None_obj None_obj st)
   \<and> is_RuntimeError (Greater exec None_obj None_obj st)
   \<and> is_RuntimeError (LessOrEqual exec None_obj None_obj st)
   \<and> is_RuntimeError (GreaterOrEqual exec None_obj None_obj st)"
proof -
  have other: "\<not> (lhs = None_obj \<and> rhs = None_obj) \<and> \<not> same_primitive_kind lhs rhs \<and>
        \<not> has_overload st lhs ''__eq__'' \<longrightarrow>
        Equal exec lhs rhs st = Inl (RuntimeError ''Equality operator is not applicable'')"
    using Equal_other_case by blast
  have prim: "Equal exec None_obj None_obj st = Inr (True, st)"
    "Equal exec (Bool_obj b1) (Bool_obj b2) st = Inr (b1 = b2, st)"
    "Equal exec (Number_obj n1) (Number_obj n2) st = Inr (n1 = n2, st)"
    "Equal exec (String_obj s1) (String_obj s2) st = Inr (s1 = s2, st)"
    by (simp_all add: Equal_def)
  have inst: "HasMethod (heap st a) ''__eq__'' 1 \<longrightarrow>
        Equal exec (Instance_obj a) rhs st =
          (case Call exec a ''__eq__'' [rhs] st of
             Inl e \<Rightarrow> Inl e
           | Inr (res, st') \<Rightarrow> Inr (IsTrue res, st'))"
    by (simp add: Equal_def)
  have less: "Less exec None_obj None_obj st = Inl (RuntimeError ''Less operator is not applicable'')"
    by (simp add: Less_def)
  have rel: "NotEqual exec None_obj None_obj st = Inr (False, st)"
    "is_RuntimeError (Less exec None_obj None_obj st)"
    "is_RuntimeError (Greater exec None_obj None_obj st)"
    "is_RuntimeError (LessOrEqual exec None_obj None_obj st)"
    "is_RuntimeError (GreaterOrEqual exec None_obj None_obj st)"
    by (simp_all add: NotEqual_def Greater_def LessOrEqual_def GreaterOrEqual_def prim less)
  from prim inst other rel show ?thesis by blast
qed

theorem C2_Equal_witness:
  "HasMethod (heap State_example 0) ''__eq__'' 1
   \<and> Equal (Execute 1) (Instance_obj 0) (Instance_obj 0) State_example =
       Inr (True, returned Local State_example)
   \<and> Equal (Execute 1) (Number_obj 1) (Instance_obj 0) State_example =
       Inl (RuntimeError ''Equality operator is not applicable'')"
  using C2_Equal [where exec = "Execute 1" and st = State_example and a = 0
      and rhs = "Instance_obj 0" and lhs = "Number_obj 1"]
  by (simp add: has_overload_def HasMethod_def Call_def State_example_def Box_def
      VariableValue_Execute_def Equal_def IsTrue_def read_from_def returned_def stored_in_def
      given_away_def body_returned_def)

subsection \<open>Derived comparisons\<close>

text \<open>
  Claim C3. A call of \<^verbatim>\<open>__eq__\<close> or \<^verbatim>\<open>__lt__\<close> may change instances and write
  output, so each comparison is stated with the state it starts in and the state it
  leaves. Where \<^verbatim>\<open>Equal\<close> returns \<open>e\<close> and \<^verbatim>\<open>Less\<close>, called after it, returns
  \<open>l\<close>: \<^verbatim>\<open>NotEqual\<close> is \<open>\<not> e\<close>, \<^verbatim>\<open>Greater\<close> is \<open>\<not> l \<and> \<not> e\<close>,
  \<^verbatim>\<open>LessOrEqual\<close> is the negation of \<^verbatim>\<open>Greater\<close>, and \<^verbatim>\<open>GreaterOrEqual\<close> is
  \<open>\<not> l\<close>. \<^verbatim>\<open>Greater\<close> calls both \<^verbatim>\<open>Equal\<close> and \<^verbatim>\<open>Less\<close>: it throws when
  \<^verbatim>\<open>Equal\<close> throws, and it throws when \<^verbatim>\<open>Less\<close> throws, also where
  \<^verbatim>\<open>Equal\<close> has returned true and the conjunction is decided already.
\<close>

theorem C3_derived_comparisons:
  "(Equal exec lhs rhs st = Inr (e, st1) \<longrightarrow>
       NotEqual exec lhs rhs st = Inr (\<not> e, st1))
   \<and> (Equal exec lhs rhs st = Inr (e, st1) \<and> Less exec lhs rhs st1 = Inr (l, st2) \<longrightarrow>
       Greater exec lhs rhs st = Inr (\<not> l \<and> \<not> e, st2)
       \<and> LessOrEqual exec lhs rhs st = Inr (\<not> (\<not> l \<and> \<not> e), st2))
   \<and> (Less exec lhs rhs st = Inr (l, st3) \<longrightarrow>
       GreaterOrEqual exec lhs rhs st = Inr (\<not> l, st3))
   \<and> (Equal exec lhs rhs st = Inl err \<longrightarrow> Greater exec lhs rhs st = Inl err)
   \<and> (Equal exec lhs rhs st = Inr (e, st1) \<and> Less exec lhs rhs st1 = Inl err \<longrightarrow>
       Greater exec lhs rhs st = Inl err)"
  by (auto simp: NotEqual_def Greater_def LessOrEqual_def GreaterOrEqual_def)

theorem C3_derived_comparisons_witness:
  "Greater (Execute 0) (Number_obj 3) (Number_obj 2) State_init = Inr (True, State_init)
   \<and> LessOrEqual (Execute 0) (Number_obj 3) (Number_obj 2) State_init = Inr (False, State_init)
   \<and> NotEqual (Execute 0) (Number_obj 3) (Number_obj 2) State_init = Inr (True, State_init)
   \<and> GreaterOrEqual (Execute 0) (Number_obj 3) (Number_obj 2) State_init = Inr (True, State_init)
   \<and> Greater (Execute 0) (Number_obj 3) (String_obj ''a'') State_init =
       Inl (RuntimeError ''Equality operator is not applicable'')
   \<and> Equal (Execute 0) None_obj None_obj State_init = Inr (True, State_init)
   \<and> Greater (Execute 0) None_obj None_obj State_init =
       Inl (RuntimeError ''Less operator is not applicable'')"
  using
    C3_derived_comparisons [where exec = "Execute 0" and lhs = "Number_obj 3"
      and rhs = "Number_obj 2" and st = State_init and ?st1.0 = State_init
      and ?st2.0 = State_init and ?st3.0 = State_init and e = False and l = False]
    C3_derived_comparisons [where exec = "Execute 0" and lhs = "Number_obj 3"
      and rhs = "String_obj ''a''" and st = State_init
      and err = "RuntimeError ''Equality operator is not applicable''"]
    C3_derived_comparisons [where exec = "Execute 0" and lhs = None_obj
      and rhs = None_obj and st = State_init and ?st1.0 = State_init and e = True
      and err = "RuntimeError ''Less operator is not applicable''"]
  by (simp add: Equal_def Less_def)

subsection \<open>Subtraction, multiplication and division\<close>

text \<open>
  The value an \<^verbatim>\<open>int\<close> takes when it is given the integer \<open>x\<close>: \<open>x\<close> itself when
  it lies between \<open>-2^31\<close> and \<open>2^31 - 1\<close>, and otherwise the integer of that range
  that differs from \<open>x\<close> by a multiple of \<open>2^32\<close>.
\<close>

definition wrap_int32 :: "int \<Rightarrow> int" where
  "wrap_int32 x = (x + 2 ^ 31) mod 2 ^ 32 - 2 ^ 31"

definition in_int32 :: "int \<Rightarrow> bool" where
  "in_int32 x = (- (2 ^ 31) \<le> x \<and> x < 2 ^ 31)"

fun is_Number :: "ObjectHolder \<Rightarrow> bool" where
  "is_Number (Number_obj n) = True"
| "is_Number object = False"

lemma wrap_int32_exact: "in_int32 x \<Longrightarrow> wrap_int32 x = x"
  by (simp add: wrap_int32_def in_int32_def)

lemma sint_word_of_int32: "sint (word_of_int x :: int32) = wrap_int32 x"
  by (simp add: int_word_sint wrap_int32_def)

lemma sint_sub_int32: "sint (l - r :: int32) = wrap_int32 (sint l - sint r)"
proof -
  have "l - r = word_of_int (sint l - sint r)" by simp
  then show ?thesis by (simp only: sint_word_of_int32)
qed

lemma sint_mult_int32: "sint (l * r :: int32) = wrap_int32 (sint l * sint r)"
proof -
  have "l * r = word_of_int (sint l * sint r)" by simp
  then show ?thesis by (simp only: sint_word_of_int32)
qed

lemma in_int32_sint: "in_int32 (sint (w :: int32))"
  using sint_ge [of w] sint_lt [of w] by (simp add: in_int32_def)

lemma trunc_div_towards_zero:
  assumes "y \<noteq> 0"
  shows "\<bar>trunc_div x y * y\<bar> \<le> \<bar>x\<bar> \<and> \<bar>x - trunc_div x y * y\<bar> < \<bar>y\<bar>"
proof -
  let ?q = "\<bar>x\<bar> div \<bar>y\<bar>"
  have pos: "0 < \<bar>y\<bar>" using assms by simp
  have q0: "0 \<le> ?q" using pos pos_imp_zdiv_nonneg_iff [of "\<bar>y\<bar>" "\<bar>x\<bar>"] by simp
  have sy: "sgn y * y = \<bar>y\<bar>" by (simp add: abs_sgn mult.commute)
  have prod: "trunc_div x y * y = sgn x * (?q * \<bar>y\<bar>)"
    using sy by (simp add: trunc_div_def algebra_simps)
  have rem: "\<bar>x\<bar> - ?q * \<bar>y\<bar> = \<bar>x\<bar> mod \<bar>y\<bar>"
    by (simp add: minus_div_mult_eq_mod)
  have rem_lt: "\<bar>x\<bar> mod \<bar>y\<bar> < \<bar>y\<bar>" using pos by simp
  have rem_ge: "0 \<le> \<bar>x\<bar> mod \<bar>y\<bar>" using pos by simp
  have le: "?q * \<bar>y\<bar> \<le> \<bar>x\<bar>"
    using rem rem_ge by linarith
  have first: "\<bar>trunc_div x y * y\<bar> \<le> \<bar>x\<bar>"
  proof (cases "x = 0")
    case True
    then show ?thesis by (simp add: trunc_div_def)
  next
    case False
    then have "\<bar>sgn x\<bar> = 1" by (simp add: abs_sgn_eq)
    then have "\<bar>trunc_div x y * y\<bar> = ?q * \<bar>y\<bar>"
      using q0 by (simp add: prod abs_mult)
    with le show ?thesis by simp
  qed
  have "sgn x * \<bar>x\<bar> - sgn x * (?q * \<bar>y\<bar>) = sgn x * (\<bar>x\<bar> - ?q * \<bar>y\<bar>)"
    by (simp only: right_diff_distrib)
  moreover have "sgn x * \<bar>x\<bar> = x" by (rule mult_sgn_abs)
  ultimately have "x - trunc_div x y * y = sgn x * (\<bar>x\<bar> - ?q * \<bar>y\<bar>)"
    by (simp only: prod)
  then have "\<bar>x - trunc_div x y * y\<bar> = \<bar>sgn x\<bar> * (\<bar>x\<bar> mod \<bar>y\<bar>)"
    using rem rem_ge by (simp add: abs_mult)
  also have "\<dots> \<le> \<bar>x\<bar> mod \<bar>y\<bar>"
    using rem_ge by (cases "x = 0") (simp_all add: abs_sgn_eq)
  finally have "\<bar>x - trunc_div x y * y\<bar> < \<bar>y\<bar>" using rem_lt by simp
  with first show ?thesis by simp
qed

lemma trunc_div_in_int32:
  assumes x: "in_int32 x" and y: "y \<noteq> 0" and no: "\<not> (x = - (2 ^ 31) \<and> y = - 1)"
  shows "in_int32 (trunc_div x y)"
proof -
  let ?q = "trunc_div x y"
  from trunc_div_towards_zero [OF y, of x] have le: "\<bar>?q * y\<bar> \<le> \<bar>x\<bar>" by simp
  from y have "1 \<le> \<bar>y\<bar>" by simp
  then have "\<bar>?q\<bar> * 1 \<le> \<bar>?q\<bar> * \<bar>y\<bar>" by (intro mult_left_mono) simp_all
  with le have q: "\<bar>?q\<bar> \<le> \<bar>x\<bar>" by (simp add: abs_mult)
  from x have ax: "\<bar>x\<bar> \<le> 2 ^ 31" unfolding in_int32_def by linarith
  show ?thesis
  proof (cases "?q = 2 ^ 31")
    case False
    with q ax show ?thesis unfolding in_int32_def by linarith
  next
    case True
    with q ax have "\<bar>x\<bar> = 2 ^ 31" by linarith
    with x have x': "x = - (2 ^ 31)" unfolding in_int32_def by linarith
    from le True x' have "\<bar>y\<bar> \<le> 1" by (simp add: abs_mult)
    with y have "y = 1 \<or> y = - 1" by auto
    with no x' have "y = 1" by blast
    with x' have "?q = - (2 ^ 31)" by (simp add: trunc_div_def)
    with True show ?thesis by simp
  qed
qed

text \<open>Where the division has a result, it is the exact quotient cut towards zero.\<close>

lemma int_div_exact:
  assumes "int_div l r = Inr q"
  shows "sint q = trunc_div (sint l) (sint r)"
proof -
  from assms have r: "sint r \<noteq> 0" and no: "\<not> (sint l = - (2 ^ 31) \<and> sint r = - 1)"
    and q: "q = word_of_int (trunc_div (sint l) (sint r))"
    by (auto simp: int_div_def split: if_splits)
  from trunc_div_in_int32 [OF in_int32_sint r no]
  have "wrap_int32 (trunc_div (sint l) (sint r)) = trunc_div (sint l) (sint r)"
    by (rule wrap_int32_exact)
  with q show ?thesis by (simp only: sint_word_of_int32)
qed

text \<open>
  What \<^verbatim>\<open>Sub\<close>, \<^verbatim>\<open>Mult\<close> and \<^verbatim>\<open>Div\<close> give where both operands have been
  evaluated (the left one first) and neither holder was the only owner of its object,
  so that the model takes both objects to be alive when they are read. Unless both
  values are \<^verbatim>\<open>Number\<close> objects, \<^verbatim>\<open>runtime_error\<close> is thrown, whoever owns the
  objects, and \<^verbatim>\<open>Div\<close> throws it as well when the divisor is zero. Otherwise the
  result is a new \<^verbatim>\<open>Number\<close>. Difference and product are \<^verbatim>\<open>int\<close>s of 32 bits:
  the exact integer when that lies between \<open>-2^31\<close> and \<open>2^31 - 1\<close>, and the integer
  of this range that differs from it by a multiple of \<open>2^32\<close> otherwise. The quotient
  is cut towards zero; the division of \<open>-2^31\<close> by \<open>-1\<close> has no result.
\<close>

lemma arithmetic_of_kept_operands:
  assumes "Exec exec lhs closure st = Inr (Number_obj l, closure1, st1)"
    and "Exec exec rhs closure1 st1 = Inr (Number_obj r, closure2, st2)"
    and "result_owner st1 \<noteq> Sole" and "result_owner st2 \<noteq> Sole"
  shows "Exec exec (Sub lhs rhs) closure st = Inr (Number_obj (l - r), closure2, returned Sole st2)"
    and "sint (l - r) = wrap_int32 (sint l - sint r)"
    and "Exec exec (Mult lhs rhs) closure st = Inr (Number_obj (l * r), closure2, returned Sole st2)"
    and "sint (l * r) = wrap_int32 (sint l * sint r)"
    and "r = 0 \<Longrightarrow>
         Exec exec (Div lhs rhs) closure st = Inl (RuntimeError ''Incorrect division'')"
    and "r \<noteq> 0 \<Longrightarrow> \<not> (sint l = - (2 ^ 31) \<and> sint r = - 1) \<Longrightarrow>
         \<exists>q. Exec exec (Div lhs rhs) closure st = Inr (Number_obj q, closure2, returned Sole st2)
           \<and> sint q = trunc_div (sint l) (sint r)
           \<and> \<bar>sint q * sint r\<bar> \<le> \<bar>sint l\<bar> \<and> \<bar>sint l - sint q * sint r\<bar> < \<bar>sint r\<bar>"
    and "r \<noteq> 0 \<Longrightarrow> sint l = - (2 ^ 31) \<and> sint r = - 1 \<Longrightarrow>
         Exec exec (Div lhs rhs) closure st = Inl (UndefinedBehaviour ''INT_MIN / -1 is no int'')"
proof -
  from assms show "Exec exec (Sub lhs rhs) closure st =
      Inr (Number_obj (l - r), closure2, returned Sole st2)"
    by simp
  from assms show "Exec exec (Mult lhs rhs) closure st =
      Inr (Number_obj (l * r), closure2, returned Sole st2)"
    by simp
  show "sint (l - r) = wrap_int32 (sint l - sint r)" by (rule sint_sub_int32)
  show "sint (l * r) = wrap_int32 (sint l * sint r)" by (rule sint_mult_int32)
  {
    assume "r = 0"
    with assms show "Exec exec (Div lhs rhs) closure st = Inl (RuntimeError ''Incorrect division'')"
      by simp
  }
  {
    assume r: "r \<noteq> 0" and no: "\<not> (sint l = - (2 ^ 31) \<and> sint r = - 1)"
    from r have r': "sint r \<noteq> 0" by (simp add: signed_eq_0_iff)
    define q :: int32 where "q = word_of_int (trunc_div (sint l) (sint r))"
    from r' no have d: "int_div l r = Inr q" by (simp add: int_div_def q_def)
    from int_div_exact [OF d] have e: "sint q = trunc_div (sint l) (sint r)" .
    from assms r d have "Exec exec (Div lhs rhs) closure st =
        Inr (Number_obj q, closure2, returned Sole st2)"
      by simp
    moreover from trunc_div_towards_zero [OF r', of "sint l"] e
    have "\<bar>sint q * sint r\<bar> \<le> \<bar>sint l\<bar> \<and> \<bar>sint l - sint q * sint r\<bar> < \<bar>sint r\<bar>"
      by simp
    ultimately show "\<exists>q. Exec exec (Div lhs rhs) closure st =
          Inr (Number_obj q, closure2, returned Sole st2)
        \<and> sint q = trunc_div (sint l) (sint r)
        \<and> \<bar>sint q * sint r\<bar> \<le> \<bar>sint l\<bar> \<and> \<bar>sint l - sint q * sint r\<bar> < \<bar>sint r\<bar>"
      using e by blast
  }
  {
    assume r: "r \<noteq> 0" and "sint l = - (2 ^ 31) \<and> sint r = - 1"
    then have "int_div l r = Inl (UndefinedBehaviour ''INT_MIN / -1 is no int'')"
      by (simp add: int_div_def)
    with assms r
    show "Exec exec (Div lhs rhs) closure st = Inl (UndefinedBehaviour ''INT_MIN / -1 is no int'')"
      by simp
  }
qed

lemma arithmetic_on_other_values:
  assumes "Exec exec lhs closure st = Inr (left, closure1, st1)"
    and "Exec exec rhs closure1 st1 = Inr (right, closure2, st2)"
    and "\<not> (is_Number left \<and> is_Number right)"
  shows "Exec exec (Sub lhs rhs) closure st = Inl (RuntimeError ''Incorrect subtraction'')"
    and "Exec exec (Mult lhs rhs) closure st = Inl (RuntimeError ''Incorrect multiplication'')"
    and "Exec exec (Div lhs rhs) closure st = Inl (RuntimeError ''Incorrect division'')"
  using assms by (cases left; cases right; simp)+

text \<open>
  A class whose method \<^verbatim>\<open>next\<close> returns \<^verbatim>\<open>self.v + 1\<close> and whose method
  \<^verbatim>\<open>get\<close> returns \<^verbatim>\<open>self.v\<close>; a state with one instance of it at address 0, whose
  field \<^verbatim>\<open>v\<close> holds 1.
\<close>

definition Counter :: Class where
  "Counter = Class ''Counter''
     [Method ''next'' []
        (MethodBody (Compound
           [Return (Add (VariableValue [''self'', ''v'']) (NumericConst 1))])),
      Method ''get'' [] (MethodBody (Compound [Return (VariableValue [''self'', ''v''])]))]
     None"

definition State_counter :: State where
  "State_counter =
     \<lparr>heap = (\<lambda>a. \<lparr>inst_class = Counter, inst_fields = [''v'' \<mapsto> Number_obj 1]\<rparr>),
      heap_next = 1, out = [], result_owner = Shared, local_names = {}\<rparr>"

text \<open>
  Operands that stay alive: constants, which live in the syntax tree, a variable, whose
  object the closure owns (\<^verbatim>\<open>x = 1 + 2\<close> followed by \<^verbatim>\<open>x - 1\<close>), and the result
  of a method that returns what a field owns (\<^verbatim>\<open>c.get() - 1\<close>).
\<close>

lemma operands_that_stay_alive:
  "Execute 0 (Sub (NumericConst 7) (NumericConst 9)) Map.empty State_init =
     Inr (Number_obj (- 2), Map.empty, returned Sole State_init)
   \<and> Execute 0 (Div (NumericConst (- 7)) (NumericConst 2)) Map.empty State_init =
     Inr (Number_obj (- 3), Map.empty, returned Sole State_init)
   \<and> Execute 0 (Div (NumericConst 7) (NumericConst 0)) Map.empty State_init =
     Inl (RuntimeError ''Incorrect division'')
   \<and> Execute 0 (Mult (NumericConst 7) (StringConst ''a'')) Map.empty State_init =
     Inl (RuntimeError ''Incorrect multiplication'')
   \<and> Execute 0
       (Compound [Assignment ''x'' (Add (NumericConst 1) (NumericConst 2)),
                  Assignment ''y'' (Sub (VariableValue [''x'']) (NumericConst 1))])
       Map.empty State_init =
     Inr (None_obj, [''x'' \<mapsto> Number_obj 3, ''y'' \<mapsto> Number_obj 2],
          State_init\<lparr>local_names := {''x'', ''y''}\<rparr>)
   \<and> Execute 1 (Sub (MethodCall (VariableValue [''c'']) ''get'' []) (NumericConst 1))
       [''c'' \<mapsto> Instance_obj 0] State_counter =
     Inr (Number_obj 0, [''c'' \<mapsto> Instance_obj 0], returned Sole State_counter)"
  by (simp add: int_div_def trunc_div_def returned_def stored_in_def read_from_def
      VariableValue_Execute_def State_init_def State_counter_def Counter_def Call_def
      HasMethod_def body_returned_def closure_destroyed_def given_away_def insert_commute)

text \<open>
  Claim C4 fails on \<^verbatim>\<open>(1 + 2) - (3 + 4)\<close>, and on the product and the quotient of
  the same operands. Both operands evaluate to \<^verbatim>\<open>Number\<close> objects, 3 and 7, each
  owned by the holder that \<^verbatim>\<open>Add::Execute\<close> returns and by nothing else.
  \<^verbatim>\<open>Sub::Execute\<close>, \<^verbatim>\<open>Mult::Execute\<close> and \<^verbatim>\<open>Div::Execute\<close> keep a pointer to
  each object and let the holder go, which deletes the object, and then read the value
  through the pointer: there is no difference, product or quotient of 3 and 7, and no
  \<^verbatim>\<open>runtime_error\<close> either. The same happens to the result of a method that returns
  a value it has computed (\<^verbatim>\<open>c.next() - 1\<close>). \<^verbatim>\<open>Add::Execute\<close> keeps the holders
  and has its result on the same operands. Where the operands stay alive, the quotient
  of \<open>-2^31\<close> by \<open>-1\<close> has no result and throws nothing.
\<close>

theorem C4_operand_read_after_delete:
  "Execute 0 (Add (NumericConst 1) (NumericConst 2)) Map.empty State_init =
     Inr (Number_obj 3, Map.empty, returned Sole State_init)
   \<and> Execute 0 (Add (NumericConst 3) (NumericConst 4)) Map.empty State_init =
     Inr (Number_obj 7, Map.empty, returned Sole State_init)
   \<and> Execute 0
       (Sub (Add (NumericConst 1) (NumericConst 2)) (Add (NumericConst 3) (NumericConst 4)))
       Map.empty State_init =
     Inl (UndefinedBehaviour ''GetValue() on a deleted Number'')
   \<and> Execute 0
       (Mult (Add (NumericConst 1) (NumericConst 2)) (Add (NumericConst 3) (NumericConst 4)))
       Map.empty State_init =
     Inl (UndefinedBehaviour ''GetValue() on a deleted Number'')
   \<and> Execute 0
       (Div (Add (NumericConst 1) (NumericConst 2)) (Add (NumericConst 3) (NumericConst 4)))
       Map.empty State_init =
     Inl (UndefinedBehaviour ''GetValue() on a deleted Number'')
   \<and> \<not> is_RuntimeError
        (Execute 0
           (Sub (Add (NumericConst 1) (NumericConst 2)) (Add (NumericConst 3) (NumericConst 4)))
           Map.empty State_init)
   \<and> Execute 1 (Sub (MethodCall (VariableValue [''c'']) ''next'' []) (NumericConst 1))
       [''c'' \<mapsto> Instance_obj 0] State_counter =
     Inl (UndefinedBehaviour ''GetValue() on a deleted Number'')
   \<and> Execute 0
       (Add (Add (NumericConst 1) (NumericConst 2)) (Add (NumericConst 3) (NumericConst 4)))
       Map.empty State_init =
     Inr (Number_obj 10, Map.empty, returned Sole State_init)
   \<and> Execute 0 (Div (NumericConst (- 2147483648)) (NumericConst (- 1))) Map.empty State_init =
     Inl (UndefinedBehaviour ''INT_MIN / -1 is no int'')"
  by (simp add: int_div_def returned_def stored_in_def read_from_def
      VariableValue_Execute_def State_init_def State_counter_def Counter_def Call_def
      HasMethod_def body_returned_def closure_destroyed_def given_away_def)

subsection \<open>Method calls\<close>

text \<open>
  A class whose method \<^verbatim>\<open>f\<close> assigns to \<^verbatim>\<open>self\<close> before it returns 7, and whose
  method \<^verbatim>\<open>g\<close> only returns 7; a state with one instance of it at address 0.
\<close>

definition Rebind :: Class where
  "Rebind = Class ''Rebind''
     [Method ''f'' []
        (MethodBody (Compound [Assignment ''self'' (NumericConst 5), Return (NumericConst 7)])),
      Method ''g'' [] (MethodBody (Compound [Return (NumericConst 7)]))]
     None"

definition State_rebind :: State where
  "State_rebind =
     \<lparr>heap = (\<lambda>a. \<lparr>inst_class = Rebind, inst_fields = Map.empty\<rparr>), heap_next = 1, out = [],
      result_owner = Shared, local_names = {}\<rparr>"

text \<open>
  No statement removes a name from the closure it is executed in: \<^verbatim>\<open>Execute\<close> only
  reads the closure or assigns to a name, and the body of a method that it calls works on
  a closure of its own.
\<close>

lemma Exec_keeps_names:
  "Exec exec s c st = Inr (v, c', st') \<Longrightarrow> k \<in> dom c \<Longrightarrow> k \<in> dom c'"
  "Exec_args exec ss c st = Inr (vs, c', st') \<Longrightarrow> k \<in> dom c \<Longrightarrow> k \<in> dom c'"
  "Exec_print exec ss c st = Inr (c', st') \<Longrightarrow> k \<in> dom c \<Longrightarrow> k \<in> dom c'"
  "Exec_compound exec ss c st = Inr (c', st') \<Longrightarrow> k \<in> dom c \<Longrightarrow> k \<in> dom c'"
proof (induction exec s c st and exec ss c st and exec ss c st and exec ss c st
    arbitrary: v c' st' and vs c' st' and c' st' and c' st'
    rule: Exec_Exec_args_Exec_print_Exec_compound.induct)
qed (fastforce split: sum.splits prod.splits option.splits ObjectHolder.splits if_splits)+

lemma Execute_keeps_names:
  "Execute n s c st = Inr (v, c', st') \<Longrightarrow> k \<in> dom c \<Longrightarrow> k \<in> dom c'"
  by (cases n) (auto dest: Exec_keeps_names(1))

lemma bind_params_keeps_names: "k \<in> dom c \<Longrightarrow> k \<in> dom (bind_params ps as c)"
  by (induction ps as c rule: bind_params.induct) auto

text \<open>
  Claim C1. A call of a method that the instance has with the given number of arguments
  executes the body in a new closure, in which \<^verbatim>\<open>self\<close> is bound to the instance
  and the parameters to the arguments. When the body returns \<open>res\<close>, the name
  \<^verbatim>\<open>self\<close> is still bound in that closure; the call returns what it is bound to
  if that is not the instance the method was called on, and \<open>res\<close> if it is.
\<close>

theorem C1_Call_returns_rebound_self:
  assumes "HasMethod (heap st this) mname (length args)"
    and "GetMethod (inst_class (heap st this)) mname = Some m"
    and "Execute n (body m)
           (bind_params (formal_params m) args [''self'' \<mapsto> Instance_obj this]) st =
         Inr (res, closure, st')"
  shows "\<exists>self. closure ''self'' = Some self
           \<and> Call (Execute n) this mname args st =
               Inr (if self \<noteq> Instance_obj this then self else res, st')"
proof -
  have "''self'' \<in> dom (bind_params (formal_params m) args [''self'' \<mapsto> Instance_obj this])"
    by (rule bind_params_keeps_names) simp
  with assms(3) have "''self'' \<in> dom closure"
    by (rule Execute_keeps_names)
  then obtain self where self: "closure ''self'' = Some self" by blast
  with assms have "Call (Execute n) this mname args st =
      Inr (if self \<noteq> Instance_obj this then self else res, st')"
    by (simp add: Call_def)
  with self show ?thesis by blast
qed

theorem C1_Call_returns_rebound_self_witness:
  "Call (Execute 1) 0 ''f'' [] State_rebind = Inr (Number_obj 5, State_rebind)
   \<and> Call (Execute 1) 0 ''g'' [] State_rebind = Inr (Number_obj 7, State_rebind)"
  using
    C1_Call_returns_rebound_self [where n = 1 and st = State_rebind and this = 0
      and mname = "''f''" and args = "[]"
      and m = "Method ''f'' []
        (MethodBody (Compound [Assignment ''self'' (NumericConst 5), Return (NumericConst 7)]))"
      and res = "Number_obj 7"
      and closure = "[''self'' \<mapsto> Number_obj 5, ''returned_value'' \<mapsto> Number_obj 7]"
      and st' = State_rebind]
    C1_Call_returns_rebound_self [where n = 1 and st = State_rebind and this = 0
      and mname = "''g''" and args = "[]"
      and m = "Method ''g'' [] (MethodBody (Compound [Return (NumericConst 7)]))"
      and res = "Number_obj 7"
      and closure = "[''self'' \<mapsto> Instance_obj 0, ''returned_value'' \<mapsto> Number_obj 7]"
      and st' = State_rebind]
  by (simp add: HasMethod_def State_rebind_def Rebind_def returned_def stored_in_def
      body_returned_def)

subsection \<open>Calls and field assignments on values that are no instances\<close>

text \<open>
  \<^verbatim>\<open>MethodCall::Execute\<close> and \<^verbatim>\<open>FieldAssignment::Execute\<close> on a value that is
  no instance, whatever the value: once the arguments and the object have been evaluated,
  the null pointer that \<^verbatim>\<open>TryAs<ClassInstance>()\<close> returns is dereferenced.
\<close>

lemma MethodCall_on_other_value:
  assumes "Exec_args exec args closure st = Inr (vals, closure1, st1)"
    and "Exec exec object closure1 st1 = Inr (obj, closure2, st2)"
    and "\<not> is_Instance obj"
  shows "Exec exec (MethodCall object mname args) closure st =
           Inl (UndefinedBehaviour ''TryAs<ClassInstance>() is null'')"
  using assms by (cases obj) simp_all

lemma FieldAssignment_on_other_value:
  assumes "VariableValue_Execute object closure st = Inr (obj, st1)"
    and "\<not> is_Instance obj"
  shows "Exec exec (FieldAssignment object field_name rv) closure st =
           Inl (UndefinedBehaviour ''TryAs<ClassInstance>() is null'')"
  using assms by (cases obj) simp_all

text \<open>
  Claim C6 at two statements, \<^verbatim>\<open>x.f()\<close> and \<^verbatim>\<open>x.y = 2\<close>, executed where \<open>x\<close> is
  bound to the number 1. \<^verbatim>\<open>MethodCall::Execute\<close> and
  \<^verbatim>\<open>FieldAssignment::Execute\<close> use the result of \<^verbatim>\<open>TryAs<ClassInstance>()\<close>
  without a check; here it is a null pointer, and no exception is thrown.
\<close>

theorem C6_null_instance_dereferenced:
  "Execute 0 (MethodCall (VariableValue [''x'']) ''f'' []) [''x'' \<mapsto> Number_obj 1] State_init =
     Inl (UndefinedBehaviour ''TryAs<ClassInstance>() is null'')
   \<and> Execute 0 (FieldAssignment [''x''] ''y'' (NumericConst 2)) [''x'' \<mapsto> Number_obj 1]
       State_init =
     Inl (UndefinedBehaviour ''TryAs<ClassInstance>() is null'')
   \<and> \<not> is_RuntimeError
        (Execute 0 (MethodCall (VariableValue [''x'']) ''f'' []) [''x'' \<mapsto> Number_obj 1]
           State_init)
   \<and> \<not> is_RuntimeError
        (Execute 0 (FieldAssignment [''x''] ''y'' (NumericConst 2)) [''x'' \<mapsto> Number_obj 1]
           State_init)"
  by (simp add: VariableValue_Execute_def)

subsection \<open>Instantiation\<close>

text \<open>
  Whether \<^verbatim>\<open>NewInstance::Execute\<close> calls \<^verbatim>\<open>__init__\<close>: the lookup of
  \<^verbatim>\<open>GetMethod\<close> in the class and its parents finds a method, and that method has as
  many parameters as there are arguments.
\<close>

definition init_applies :: "Class \<Rightarrow> Statement list \<Rightarrow> bool" where
  "init_applies c args =
     (case GetMethod c ''__init__'' of
        Some method \<Rightarrow> length (formal_params method) = length args
      | None \<Rightarrow> False)"

text \<open>A class that inherits \<^verbatim>\<open>__init__\<close> from \<open>Box\<close>.\<close>

definition Box_child :: Class where
  "Box_child = Class ''Child'' [] (Some Box)"

lemma GetMethod_own:
  "find (\<lambda>m. method_name m = name) (rev ms) = Some m \<Longrightarrow>
   GetMethod (Class nm ms p) name = Some m"
  by simp

lemma GetMethod_inherited:
  "find (\<lambda>m. method_name m = name) (rev ms) = None \<Longrightarrow>
   GetMethod (Class nm ms (Some parent)) name = GetMethod parent name"
  by simp

lemma new_instance_fresh:
  "new_instance c st = (a, st0) \<Longrightarrow>
   a = heap_next st \<and> heap st0 a = \<lparr>inst_class = c, inst_fields = Map.empty\<rparr>
   \<and> heap_next st0 = Suc (heap_next st) \<and> out st0 = out st
   \<and> (\<forall>b. b < heap_next st \<longrightarrow> heap st0 b = heap st b)"
  by (auto simp: new_instance_def)

text \<open>
  Claim C5. \<^verbatim>\<open>NewInstance\<close> builds an instance of the class without fields at the
  first address not in use and leaves the instances built before as they are. Without an
  \<^verbatim>\<open>__init__\<close> of the right number of parameters it returns the new instance at once
  and the arguments are not evaluated. Otherwise it evaluates the arguments in their
  order and calls \<^verbatim>\<open>__init__\<close> on the new instance with their values; it returns
  the result of that call when it is not empty, and the new instance when it is.
\<close>

theorem C5_NewInstance:
  assumes "new_instance c st = (a, st0)"
  shows
    "a = heap_next st \<and> heap st0 a = \<lparr>inst_class = c, inst_fields = Map.empty\<rparr>
     \<and> heap_next st0 = Suc (heap_next st)
     \<and> (b < heap_next st \<longrightarrow> heap st0 b = heap st b)
     \<and> (\<not> init_applies c args \<longrightarrow>
          Exec exec (NewInstance c args) closure st = Inr (Instance_obj a, closure, st0))
     \<and> (init_applies c args \<and> Exec_args exec args closure st0 = Inr (vals, closure1, st1)
          \<and> Call exec a ''__init__'' vals st1 = Inr (post_init_obj, st2) \<longrightarrow>
          Exec exec (NewInstance c args) closure st =
            Inr (if post_init_obj \<noteq> None_obj then post_init_obj else Instance_obj a,
                 closure1, st2))"
proof -
  from new_instance_fresh [OF assms]
  have fresh: "a = heap_next st" "heap st0 a = \<lparr>inst_class = c, inst_fields = Map.empty\<rparr>"
    "heap_next st0 = Suc (heap_next st)" "b < heap_next st \<longrightarrow> heap st0 b = heap st b"
    by blast+
  have without: "\<not> init_applies c args \<longrightarrow>
      Exec exec (NewInstance c args) closure st = Inr (Instance_obj a, closure, st0)"
    using assms by (simp add: init_applies_def split: option.splits)
  have with_init: "init_applies c args \<and> Exec_args exec args closure st0 = Inr (vals, closure1, st1)
        \<and> Call exec a ''__init__'' vals st1 = Inr (post_init_obj, st2) \<longrightarrow>
      Exec exec (NewInstance c args) closure st =
        Inr (if post_init_obj \<noteq> None_obj then post_init_obj else Instance_obj a, closure1, st2)"
    using assms by (simp add: init_applies_def split: option.splits)
  from fresh without with_init show ?thesis by blast
qed

theorem C5_NewInstance_witness:
  "Exec (Execute 1) (NewInstance Box [NumericConst 1]) Map.empty State_init =
     Inr (Instance_obj 0, Map.empty,
          set_field 0 ''v'' (Number_obj 1) (returned Shared (snd (new_instance Box State_init))))
   \<and> Exec (Execute 1) (NewInstance Box []) Map.empty State_init =
     Inr (Instance_obj 0, Map.empty, snd (new_instance Box State_init))
   \<and> heap (snd (new_instance Box State_init)) 0 = \<lparr>inst_class = Box, inst_fields = Map.empty\<rparr>
   \<and> Exec (Execute 1) (NewInstance Box_child [NumericConst 1]) Map.empty State_init =
     Inr (Instance_obj 0, Map.empty,
          set_field 0 ''v'' (Number_obj 1)
            (returned Shared (snd (new_instance Box_child State_init))))"
  using
    C5_NewInstance [where c = Box_child and st = State_init and a = 0
      and ?st0.0 = "snd (new_instance Box_child State_init)" and args = "[NumericConst 1]"
      and exec = "Execute 1" and closure = Map.empty and vals = "[Number_obj 1]"
      and ?closure1.0 = Map.empty
      and ?st1.0 = "returned Shared (snd (new_instance Box_child State_init))"
      and post_init_obj = None_obj
      and ?st2.0 = "set_field 0 ''v'' (Number_obj 1)
                      (returned Shared (snd (new_instance Box_child State_init)))"]
    C5_NewInstance [where c = Box and st = State_init and a = 0
      and ?st0.0 = "snd (new_instance Box State_init)" and args = "[NumericConst 1]"
      and exec = "Execute 1" and closure = Map.empty and vals = "[Number_obj 1]"
      and ?closure1.0 = Map.empty
      and ?st1.0 = "returned Shared (snd (new_instance Box State_init))"
      and post_init_obj = None_obj
      and ?st2.0 = "set_field 0 ''v'' (Number_obj 1)
                      (returned Shared (snd (new_instance Box State_init)))"]
    C5_NewInstance [where c = Box and st = State_init and a = 0
      and ?st0.0 = "snd (new_instance Box State_init)" and args = "[]"
      and exec = "Execute 1" and closure = Map.empty]
  by (simp add: init_applies_def new_instance_def State_init_def Box_def Box_child_def Call_def
      HasMethod_def VariableValue_Execute_def set_field_def read_from_def returned_def
      given_away_def body_returned_def)

subsection \<open>Reading a field that does not exist\<close>

lemma walk_fields_append:
  "walk_fields (ids @ [name]) obj st =
     (case walk_fields ids obj st of
        Inl e \<Rightarrow> Inl e
      | Inr (v, st') \<Rightarrow> walk_fields [name] v st')"
proof (induction ids arbitrary: obj st)
  case Nil
  show ?case by simp
next
  case (Cons i ids)
  show ?case
  proof (cases obj)
    case (Instance_obj a)
    then show ?thesis
      by (cases "inst_fields (heap st a) i") (simp_all add: Cons.IH)
  qed simp_all
qed

text \<open>
  Claim C10. Where the chain without its last identifier evaluates to an instance (so
  the first identifier is bound in the closure and every value on the way is an
  instance) and the last identifier is not a field of that instance,
  \<^verbatim>\<open>VariableValue::Execute\<close> throws nothing: it returns the empty holder, and the
  instance has the field afterwards, bound to the empty holder.
\<close>

theorem C10_missing_field_is_inserted:
  assumes "VariableValue_Execute (first # mid) closure st = Inr (Instance_obj a, st1)"
    and "inst_fields (heap st1 a) name = None"
  shows "Exec exec (VariableValue (first # mid @ [name])) closure st =
           Inr (None_obj, closure, set_field a name None_obj st1)
         \<and> inst_fields (heap (set_field a name None_obj st1) a) name = Some None_obj"
proof -
  from assms(1) obtain obj where bound: "closure first = Some obj"
    and walk: "walk_fields mid obj (read_from first obj st) = Inr (Instance_obj a, st1)"
    by (auto simp: VariableValue_Execute_def split: option.splits)
  have "walk_fields (mid @ [name]) obj (read_from first obj st) =
      Inr (None_obj, set_field a name None_obj st1)"
    using walk assms(2) by (simp add: walk_fields_append)
  with bound have "Exec exec (VariableValue (first # mid @ [name])) closure st =
      Inr (None_obj, closure, set_field a name None_obj st1)"
    by (simp add: VariableValue_Execute_def)
  moreover have "inst_fields (heap (set_field a name None_obj st1) a) name = Some None_obj"
    by (simp add: set_field_def)
  ultimately show ?thesis by simp
qed

theorem C10_missing_field_is_inserted_witness:
  "Exec (Execute 0) (VariableValue [''p'', ''w'']) [''p'' \<mapsto> Instance_obj 1] State_example =
     Inr (None_obj, [''p'' \<mapsto> Instance_obj 1], set_field 1 ''w'' None_obj State_example)
   \<and> inst_fields (heap State_example 1) ''w'' = None
   \<and> inst_fields (heap (set_field 1 ''w'' None_obj State_example) 1) ''w'' = Some None_obj"
  using C10_missing_field_is_inserted [where first = "''p''" and mid = "[]"
      and closure = "[''p'' \<mapsto> Instance_obj 1]" and st = State_example and a = 1
      and ?st1.0 = State_example and name = "''w''" and exec = "Execute 0"]
  by (simp add: VariableValue_Execute_def State_example_def read_from_def returned_def)

end
